theory Spec2Isabelle
  imports Complex_Main "HOL-Library.AList"
begin

section \<open>Storage fee manager: data model\<close>

text \<open>
  The embedding follows \<^verbatim>\<open>storage_fee_manager.py\<close>. Python integers are \<open>int\<close>,
  \<^verbatim>\<open>Decimal\<close> rates are exact rationals, dictionaries are maps (the file registry,
  whose entries are summed, is an association list in insertion order), and every
  method of \<^verbatim>\<open>StorageManager\<close> takes the manager and returns it updated.

  Arithmetic is exact here. In the source the KB-to-MB step is \<^verbatim>\<open>math.ceil(kb / 1000)\<close>
  on a float quotient and the rate product is a \<^verbatim>\<open>Decimal\<close> of 28 significant digits;
  both agree with the exact value for sizes of magnitude below \<open>8 * 10^15\<close> KB.
\<close>

record StorageUnit =
  unit_type :: string
  store_fee_per_mb :: rat
  update_fee_per_mb :: rat
  is_free_plan_allowed :: bool

definition STORAGE_UNITS :: "(string \<times> StorageUnit) list" where
  "STORAGE_UNITS =
    [(''storage_A1'', \<lparr>unit_type = ''A'', store_fee_per_mb = 1 / 100,
        update_fee_per_mb = 5 / 10000, is_free_plan_allowed = True\<rparr>),
     (''storage_A2'', \<lparr>unit_type = ''A'', store_fee_per_mb = 1 / 1000,
        update_fee_per_mb = 1 / 100, is_free_plan_allowed = True\<rparr>),
     (''storage_B1'', \<lparr>unit_type = ''B'', store_fee_per_mb = 1 / 100,
        update_fee_per_mb = 1 / 1000, is_free_plan_allowed = False\<rparr>),
     (''storage_B2'', \<lparr>unit_type = ''B'', store_fee_per_mb = 1 / 10000,
        update_fee_per_mb = 1 / 2, is_free_plan_allowed = False\<rparr>)]"

record File =
  name :: string
  size_kb :: int
  storage :: string

record MonthlyStats =
  max_size :: int
  update_kb_sum :: int

text \<open>\<^verbatim>\<open>MonthlyStats()\<close>: both fields default to 0.\<close>

definition MonthlyStats_default :: MonthlyStats where
  "MonthlyStats_default = \<lparr>max_size = 0, update_kb_sum = 0\<rparr>"

record StorageManager =
  is_free_plan :: bool
  files :: "(string \<times> File) list"
  current_storage_size :: "string \<rightharpoonup> int"
  monthly_stats :: "string \<rightharpoonup> (string \<rightharpoonup> MonthlyStats)"
  calc_reported_sizes_snapshot :: "string \<rightharpoonup> (string \<rightharpoonup> int)"
  update_fee_settled_for_month :: "string set"
  last_month_eom_storage_sizes :: "string \<rightharpoonup> int"

definition KB_TO_MB_DIVISOR :: int where
  "KB_TO_MB_DIVISOR = 1000"

text \<open>\<^verbatim>\<open>StorageManager.__init__\<close>.\<close>

definition init_manager :: "bool \<Rightarrow> StorageManager" where
  "init_manager free =
    \<lparr>is_free_plan = free, files = [], current_storage_size = Map.empty,
     monthly_stats = Map.empty, calc_reported_sizes_snapshot = Map.empty,
     update_fee_settled_for_month = {}, last_month_eom_storage_sizes = Map.empty\<rparr>"

text \<open>\<^verbatim>\<open>d.get(k, 0)\<close>; on a \<^verbatim>\<open>defaultdict(int)\<close> the same value is what \<^verbatim>\<open>d[k]\<close> reads.\<close>

definition dict_get0 :: "('k \<rightharpoonup> int) \<Rightarrow> 'k \<Rightarrow> int" where
  "dict_get0 d k = (case d k of None \<Rightarrow> 0 | Some v \<Rightarrow> v)"

subsection \<open>Timestamps and month keys\<close>

record datetime =
  year :: nat
  month :: nat
  day :: nat
  hour :: nat
  minute :: nat
  second :: nat
  microsecond :: nat

datatype py_error = OverflowError

text \<open>Decimal rendering of a natural number, as an f-string prints it.\<close>

fun str_nat :: "nat \<Rightarrow> string" where
  "str_nat n =
    (if n < 10 then [''0123456789'' ! n]
     else str_nat (n div 10) @ [''0123456789'' ! (n mod 10)])"

declare str_nat.simps [simp del]

definition str_int :: "int \<Rightarrow> string" where
  "str_int i = (if i < 0 then ''-'' @ str_nat (nat (- i)) else str_nat (nat i))"

text \<open>The format \<^verbatim>\<open>{m:02d}\<close>: zero-padded to two digits.\<close>

definition str_02d :: "nat \<Rightarrow> string" where
  "str_02d m = (if m < 10 then ''0'' @ str_nat m else str_nat m)"

definition get_month_key :: "datetime \<Rightarrow> string" where
  "get_month_key timestamp = str_nat (year timestamp) @ ''-'' @ str_02d (month timestamp)"

definition is_leap :: "nat \<Rightarrow> bool" where
  "is_leap y = (y mod 4 = 0 \<and> (y mod 100 \<noteq> 0 \<or> y mod 400 = 0))"

definition days_in_month :: "nat \<Rightarrow> nat \<Rightarrow> nat" where
  "days_in_month y m =
    (if m = 2 then (if is_leap y then 29 else 28)
     else if m = 4 \<or> m = 6 \<or> m = 9 \<or> m = 11 then 30 else 31)"

text \<open>
  \<^verbatim>\<open>d - timedelta(days=1)\<close>; the earliest date is 0001-01-01, below which the
  subtraction raises \<^verbatim>\<open>OverflowError\<close>.
\<close>

definition minus_one_day :: "datetime \<Rightarrow> py_error + datetime" where
  "minus_one_day d =
    (if day d > 1 then Inr (d\<lparr>day := day d - 1\<rparr>)
     else if month d > 1
       then Inr (d\<lparr>month := month d - 1, day := days_in_month (year d) (month d - 1)\<rparr>)
     else if year d > 1 then Inr (d\<lparr>year := year d - 1, month := 12, day := 31\<rparr>)
     else Inl OverflowError)"

definition get_previous_month_key :: "datetime \<Rightarrow> py_error + string" where
  "get_previous_month_key timestamp =
    (let current_month_start =
           timestamp\<lparr>day := 1, hour := 0, minute := 0, second := 0, microsecond := 0\<rparr>
     in case minus_one_day current_month_start of
          Inl e \<Rightarrow> Inl e
        | Inr prev_month_end \<Rightarrow> Inr (get_month_key prev_month_end))"

subsection \<open>The monthly ledger\<close>

text \<open>
  \<^verbatim>\<open>_ensure_month_init\<close>: a month that is not in \<^verbatim>\<open>monthly_stats\<close> gets a fresh
  \<^verbatim>\<open>defaultdict(MonthlyStats)\<close> holding, for each key of
  \<^verbatim>\<open>last_month_eom_storage_sizes\<close>, a default entry whose \<^verbatim>\<open>max_size\<close> is that size.
\<close>

definition ensure_month_init :: "StorageManager \<Rightarrow> string \<Rightarrow> StorageManager" where
  "ensure_month_init self month_key =
    (case monthly_stats self month_key of
       Some _ \<Rightarrow> self
     | None \<Rightarrow>
         self\<lparr>monthly_stats := (monthly_stats self)(month_key \<mapsto>
           (\<lambda>s_name. map_option (\<lambda>eom_size. MonthlyStats_default\<lparr>max_size := eom_size\<rparr>)
              (last_month_eom_storage_sizes self s_name)))\<rparr>)"

text \<open>
  \<^verbatim>\<open>d[k]\<close> on a \<^verbatim>\<open>defaultdict(MonthlyStats)\<close>: a missing key is stored with the default
  before it is returned.
\<close>

definition stats_getitem ::
  "(string \<rightharpoonup> MonthlyStats) \<Rightarrow> string \<Rightarrow> MonthlyStats \<times> (string \<rightharpoonup> MonthlyStats)" where
  "stats_getitem d k =
    (case d k of
       Some v \<Rightarrow> (v, d)
     | None \<Rightarrow> (MonthlyStats_default, d(k \<mapsto> MonthlyStats_default)))"

text \<open>
  \<^verbatim>\<open>self.monthly_stats[month_key]\<close>. Every caller has run \<^verbatim>\<open>_ensure_month_init\<close> on
  the key before, so the key is present (the \<open>None\<close> branch is never taken).
\<close>

definition month_data :: "StorageManager \<Rightarrow> string \<Rightarrow> (string \<rightharpoonup> MonthlyStats)" where
  "month_data self month_key =
    (case monthly_stats self month_key of Some d \<Rightarrow> d | None \<Rightarrow> Map.empty)"

text \<open>\<^verbatim>\<open>self.monthly_stats[month_key][s_name]\<close>, with the entry it may create.\<close>

definition stats_lookup ::
  "StorageManager \<Rightarrow> string \<Rightarrow> string \<Rightarrow> MonthlyStats \<times> StorageManager" where
  "stats_lookup self month_key s_name =
    (let (s_stats, d) = stats_getitem (month_data self month_key) s_name
     in (s_stats, self\<lparr>monthly_stats := (monthly_stats self)(month_key \<mapsto> d)\<rparr>))"

text \<open>Assignment to the fields of \<^verbatim>\<open>self.monthly_stats[month_key][s_name]\<close>.\<close>

definition stats_store ::
  "StorageManager \<Rightarrow> string \<Rightarrow> string \<Rightarrow> MonthlyStats \<Rightarrow> StorageManager" where
  "stats_store self month_key s_name v =
    self\<lparr>monthly_stats := (monthly_stats self)(month_key \<mapsto> (month_data self month_key)(s_name \<mapsto> v))\<rparr>"

subsection \<open>Fee arithmetic\<close>

text \<open>\<^verbatim>\<open>math.ceil(kb / self.KB_TO_MB_DIVISOR)\<close>.\<close>

definition kb_to_mb :: "int \<Rightarrow> int" where
  "kb_to_mb kb = \<lceil>(of_int kb :: rat) / of_int KB_TO_MB_DIVISOR\<rceil>"

text \<open>\<^verbatim>\<open>Decimal(mb) * rate\<close>.\<close>

definition fee_dec :: "int \<Rightarrow> rat \<Rightarrow> rat" where
  "fee_dec mb rate = of_int mb * rate"


text \<open>
  One iteration of the loop of \<^verbatim>\<open>_would_exceed_free_plan_limit\<close>. The accumulator is
  \<^verbatim>\<open>(sim_total_integer_storage_fee, sim_total_integer_update_fee, current_month_data)\<close>;
  reading \<^verbatim>\<open>current_month_data[s_name]\<close> may add a default entry to the month.
\<close>

definition sim_unit_step ::
  "string \<Rightarrow> int \<Rightarrow> int \<Rightarrow> string \<times> StorageUnit \<Rightarrow>
   int \<times> int \<times> (string \<rightharpoonup> MonthlyStats) \<Rightarrow> int \<times> int \<times> (string \<rightharpoonup> MonthlyStats)" where
  "sim_unit_step op_storage_name op_potential_max_size_kb op_kb_for_current_op item acc =
    (case item of (s_name, s_unit) \<Rightarrow>
     case acc of (sim_storage, sim_update, d) \<Rightarrow>
       if \<not> is_free_plan_allowed s_unit then (sim_storage, sim_update, d)
       else
         let (s_stats, d') = stats_getitem d s_name;
             max_sim = (if s_name = op_storage_name then op_potential_max_size_kb
                        else max_size s_stats);
             upd_sim = (if s_name = op_storage_name
                        then update_kb_sum s_stats + op_kb_for_current_op
                        else update_kb_sum s_stats);
             sim_storage' =
               (if max_sim > 0
                then sim_storage + \<lceil>fee_dec (kb_to_mb max_sim) (store_fee_per_mb s_unit)\<rceil>
                else sim_storage);
             sim_update' =
               (if upd_sim > 0
                then sim_update + \<lceil>fee_dec (kb_to_mb upd_sim) (update_fee_per_mb s_unit)\<rceil>
                else sim_update)
         in (sim_storage', sim_update', d'))"

definition would_exceed_free_plan_limit ::
  "StorageManager \<Rightarrow> string \<Rightarrow> string \<Rightarrow> int \<Rightarrow> int \<Rightarrow> bool \<times> StorageManager" where
  "would_exceed_free_plan_limit self month_key op_storage_name op_potential_max_size_kb
      op_kb_for_current_op =
    (if \<not> is_free_plan self then (False, self)
     else
       let self1 = ensure_month_init self month_key;
           (sim_storage, sim_update, d) =
             fold (sim_unit_step op_storage_name op_potential_max_size_kb op_kb_for_current_op)
               STORAGE_UNITS (0, 0, month_data self1 month_key)
       in (sim_storage + sim_update > 1000,
           self1\<lparr>monthly_stats := (monthly_stats self1)(month_key \<mapsto> d)\<rparr>))"

record Fees =
  storage_fee :: int
  update_fee :: int
  usage_fee :: int

text \<open>
  One iteration of the loop of \<^verbatim>\<open>_calculate_total_fees\<close>; \<open>settled\<close> is
  \<^verbatim>\<open>month_key in self.update_fee_settled_for_month\<close>. The accumulator is
  \<^verbatim>\<open>(final_total_storage_fee, final_total_update_fee, total_storage_fee_dec_for_usage,
  total_update_fee_dec_for_usage, current_month_data)\<close>.
\<close>

definition fee_unit_step ::
  "bool \<Rightarrow> string \<times> StorageUnit \<Rightarrow>
   int \<times> int \<times> rat \<times> rat \<times> (string \<rightharpoonup> MonthlyStats) \<Rightarrow>
   int \<times> int \<times> rat \<times> rat \<times> (string \<rightharpoonup> MonthlyStats)" where
  "fee_unit_step settled item acc =
    (case item of (s_name, s_unit) \<Rightarrow>
     case acc of (total_storage, total_update, storage_dec, update_dec, d) \<Rightarrow>
       let (s_stats, d') = stats_getitem d s_name;
           storage_fee_dec_item = fee_dec (kb_to_mb (max_size s_stats)) (store_fee_per_mb s_unit);
           total_storage' =
             (if max_size s_stats > 0 then total_storage + \<lceil>storage_fee_dec_item\<rceil>
              else total_storage);
           storage_dec' =
             (if max_size s_stats > 0 then storage_dec + storage_fee_dec_item else storage_dec);
           current_s_update_kb_sum_for_calc = (if settled then 0 else update_kb_sum s_stats);
           total_update' =
             (if current_s_update_kb_sum_for_calc > 0
              then total_update +
                \<lceil>fee_dec (kb_to_mb current_s_update_kb_sum_for_calc) (update_fee_per_mb s_unit)\<rceil>
              else total_update);
           update_dec' =
             (if settled then update_dec + 0
              else if update_kb_sum s_stats > 0
              then update_dec + fee_dec (kb_to_mb (update_kb_sum s_stats)) (update_fee_per_mb s_unit)
              else update_dec)
       in (total_storage', total_update', storage_dec', update_dec', d'))"

text \<open>
  \<^verbatim>\<open>storages_to_check\<close>, each name paired with the unit that \<^verbatim>\<open>STORAGE_UNITS[s_name]\<close>
  reads back.
\<close>

definition storages_to_check :: "StorageManager \<Rightarrow> (string \<times> StorageUnit) list" where
  "storages_to_check self =
    filter (\<lambda>(s_name, s_unit). \<not> is_free_plan self \<or> is_free_plan_allowed s_unit) STORAGE_UNITS"

definition calculate_total_fees :: "StorageManager \<Rightarrow> string \<Rightarrow> Fees \<times> StorageManager" where
  "calculate_total_fees self month_key =
    (let self1 = ensure_month_init self month_key;
         (total_storage, total_update, storage_dec, update_dec, d) =
           fold (fee_unit_step (month_key \<in> update_fee_settled_for_month self1))
             (storages_to_check self1) (0, 0, 0, 0, month_data self1 month_key);
         usage = \<lceil>max (0::rat) (storage_dec + update_dec - 1000)\<rceil>
     in (\<lparr>storage_fee = total_storage, update_fee = total_update, usage_fee = usage\<rparr>,
         self1\<lparr>monthly_stats := (monthly_stats self1)(month_key \<mapsto> d)\<rparr>))"

section \<open>The operation handlers\<close>

text \<open>
  A handler's reply is one of the six rejection messages, the three fee figures, or the
  month-close report; \<open>render_reply\<close> below gives the string the source returns.
\<close>

datatype rejection =
  FileAlreadyExists
  | InvalidStorageName
  | NotAvailableOnFreePlan
  | FileDoesNotExist
  | FileNotInSpecifiedStorage
  | FreePlanFeeLimitExceeded

datatype reply =
  Rejected rejection
  | Accepted Fees
  | Report int int int int Fees

fun rejection_text :: "rejection \<Rightarrow> string" where
  "rejection_text FileAlreadyExists = ''file already exists''"
| "rejection_text InvalidStorageName = ''invalid storage name''"
| "rejection_text NotAvailableOnFreePlan =
     ''this storage location is not available on the free plan''"
| "rejection_text FileDoesNotExist = ''file does not exist''"
| "rejection_text FileNotInSpecifiedStorage = ''file is not in the specified storage''"
| "rejection_text FreePlanFeeLimitExceeded = ''free plan fee limit exceeded''"

definition fees_text :: "Fees \<Rightarrow> string" where
  "fees_text f =
    str_int (storage_fee f) @ '' '' @ str_int (update_fee f) @ '' '' @ str_int (usage_fee f)"

fun render_reply :: "string \<Rightarrow> reply \<Rightarrow> string" where
  "render_reply cmd (Rejected r) = cmd @ '': '' @ rejection_text r"
| "render_reply cmd (Accepted f) = cmd @ '': '' @ fees_text f"
| "render_reply cmd (Report a1 a2 b1 b2 f) =
     cmd @ '': ['' @ str_int a1 @ '' '' @ str_int a2 @ '' '' @ str_int b1 @ '' '' @ str_int b2
       @ ''] '' @ fees_text f"

subsection \<open>Upload\<close>

text \<open>The block under \<^verbatim>\<open># Check free plan limits\<close> of \<^verbatim>\<open>handle_upload\<close>.\<close>

definition upload_limit_check ::
  "StorageManager \<Rightarrow> string \<Rightarrow> string \<Rightarrow> int \<Rightarrow> bool \<times> StorageManager" where
  "upload_limit_check self month_key storage_name sz =
    (if is_free_plan self then
       let (current_stats_for_op_storage, self1) = stats_lookup self month_key storage_name;
           simulated_current_total_size_for_op_storage =
             dict_get0 (current_storage_size self1) storage_name + sz;
           potential_max_size_kb =
             max (max_size current_stats_for_op_storage)
               simulated_current_total_size_for_op_storage
       in would_exceed_free_plan_limit self1 month_key storage_name potential_max_size_kb sz
     else (False, self))"

text \<open>The block under \<^verbatim>\<open># Perform upload and update statistics\<close>.\<close>

definition upload_commit ::
  "StorageManager \<Rightarrow> string \<Rightarrow> string \<Rightarrow> string \<Rightarrow> int \<Rightarrow> reply \<times> StorageManager" where
  "upload_commit self month_key storage_name file_name sz =
    (let self1 = self\<lparr>files :=
           AList.update file_name \<lparr>name = file_name, size_kb = sz, storage = storage_name\<rparr>
             (files self)\<rparr>;
         self2 = self1\<lparr>current_storage_size := (current_storage_size self1)(storage_name \<mapsto>
           dict_get0 (current_storage_size self1) storage_name + sz)\<rparr>;
         (stats_to_update, self3) = stats_lookup self2 month_key storage_name;
         self4 = stats_store self3 month_key storage_name
           (stats_to_update\<lparr>
              max_size := max (max_size stats_to_update)
                (dict_get0 (current_storage_size self3) storage_name),
              update_kb_sum := update_kb_sum stats_to_update + sz\<rparr>);
         (total_fees, self5) = calculate_total_fees self4 month_key
     in (Accepted total_fees, self5))"

definition handle_upload ::
  "StorageManager \<Rightarrow> datetime \<Rightarrow> string \<Rightarrow> string \<Rightarrow> int \<Rightarrow> reply \<times> StorageManager" where
  "handle_upload self timestamp storage_name file_name sz =
    (if map_of (files self) file_name \<noteq> None then (Rejected FileAlreadyExists, self)
     else case map_of STORAGE_UNITS storage_name of
       None \<Rightarrow> (Rejected InvalidStorageName, self)
     | Some unit \<Rightarrow>
         if is_free_plan self \<and> \<not> is_free_plan_allowed unit
         then (Rejected NotAvailableOnFreePlan, self)
         else
           let month_key = get_month_key timestamp;
               self1 = ensure_month_init self month_key;
               (exceeded, self2) = upload_limit_check self1 month_key storage_name sz
           in if exceeded then (Rejected FreePlanFeeLimitExceeded, self2)
              else upload_commit self2 month_key storage_name file_name sz)"

subsection \<open>Delete\<close>

definition delete_limit_check ::
  "StorageManager \<Rightarrow> string \<Rightarrow> string \<Rightarrow> int \<Rightarrow> bool \<times> StorageManager" where
  "delete_limit_check self month_key storage_name deleted_file_size =
    (if is_free_plan self then
       let (current_stats_for_op_storage, self1) = stats_lookup self month_key storage_name;
           potential_max_size_kb = max_size current_stats_for_op_storage
       in would_exceed_free_plan_limit self1 month_key storage_name potential_max_size_kb
            deleted_file_size
     else (False, self))"

definition delete_commit ::
  "StorageManager \<Rightarrow> string \<Rightarrow> string \<Rightarrow> string \<Rightarrow> File \<Rightarrow> reply \<times> StorageManager" where
  "delete_commit self month_key storage_name file_name file =
    (let deleted_file_size = size_kb file;
         self1 = self\<lparr>current_storage_size := (current_storage_size self)(storage file \<mapsto>
           dict_get0 (current_storage_size self) (storage file) - deleted_file_size)\<rparr>;
         self2 = self1\<lparr>files := AList.delete file_name (files self1)\<rparr>;
         (stats_to_update, self3) = stats_lookup self2 month_key storage_name;
         self4 = stats_store self3 month_key storage_name
           (stats_to_update\<lparr>update_kb_sum := update_kb_sum stats_to_update + deleted_file_size\<rparr>);
         (total_fees, self5) = calculate_total_fees self4 month_key
     in (Accepted total_fees, self5))"

definition handle_delete ::
  "StorageManager \<Rightarrow> datetime \<Rightarrow> string \<Rightarrow> string \<Rightarrow> reply \<times> StorageManager" where
  "handle_delete self timestamp storage_name file_name =
    (let month_key = get_month_key timestamp;
         self1 = ensure_month_init self month_key
     in case map_of STORAGE_UNITS storage_name of
       None \<Rightarrow> (Rejected InvalidStorageName, self1)
     | Some unit \<Rightarrow>
         if is_free_plan self1 \<and> \<not> is_free_plan_allowed unit
         then (Rejected NotAvailableOnFreePlan, self1)
         else (case map_of (files self1) file_name of
           None \<Rightarrow> (Rejected FileDoesNotExist, self1)
         | Some file \<Rightarrow>
             if storage file \<noteq> storage_name then (Rejected FileNotInSpecifiedStorage, self1)
             else
               let (exceeded, self2) =
                     delete_limit_check self1 month_key storage_name (size_kb file)
               in if exceeded then (Rejected FreePlanFeeLimitExceeded, self2)
                  else delete_commit self2 month_key storage_name file_name file))"

subsection \<open>Update\<close>

definition update_limit_check ::
  "StorageManager \<Rightarrow> string \<Rightarrow> string \<Rightarrow> int \<Rightarrow> int \<Rightarrow> bool \<times> StorageManager" where
  "update_limit_check self month_key storage_name original_size new_size =
    (if is_free_plan self then
       let (current_stats_for_op_storage, self1) = stats_lookup self month_key storage_name;
           simulated_current_total_size_for_op_storage =
             dict_get0 (current_storage_size self1) storage_name + (new_size - original_size);
           potential_max_size_kb =
             max (max_size current_stats_for_op_storage)
               simulated_current_total_size_for_op_storage
       in would_exceed_free_plan_limit self1 month_key storage_name potential_max_size_kb
            (original_size + new_size)
     else (False, self))"

definition update_commit ::
  "StorageManager \<Rightarrow> string \<Rightarrow> string \<Rightarrow> string \<Rightarrow> File \<Rightarrow> int \<Rightarrow> reply \<times> StorageManager" where
  "update_commit self month_key storage_name file_name file new_size =
    (let original_size = size_kb file;
         self1 = self\<lparr>current_storage_size := (current_storage_size self)(storage_name \<mapsto>
           dict_get0 (current_storage_size self) storage_name + (new_size - original_size))\<rparr>;
         (stats_to_update, self2) = stats_lookup self1 month_key storage_name;
         self3 = stats_store self2 month_key storage_name
           (stats_to_update\<lparr>
              max_size := max (max_size stats_to_update)
                (dict_get0 (current_storage_size self2) storage_name),
              update_kb_sum := update_kb_sum stats_to_update + (original_size + new_size)\<rparr>);
         self4 = self3\<lparr>files := AList.update file_name (file\<lparr>size_kb := new_size\<rparr>) (files self3)\<rparr>;
         (total_fees, self5) = calculate_total_fees self4 month_key
     in (Accepted total_fees, self5))"

definition handle_update ::
  "StorageManager \<Rightarrow> datetime \<Rightarrow> string \<Rightarrow> string \<Rightarrow> int \<Rightarrow> reply \<times> StorageManager" where
  "handle_update self timestamp storage_name file_name new_size =
    (let month_key = get_month_key timestamp;
         self1 = ensure_month_init self month_key
     in case map_of STORAGE_UNITS storage_name of
       None \<Rightarrow> (Rejected InvalidStorageName, self1)
     | Some unit \<Rightarrow>
         if is_free_plan self1 \<and> \<not> is_free_plan_allowed unit
         then (Rejected NotAvailableOnFreePlan, self1)
         else (case map_of (files self1) file_name of
           None \<Rightarrow> (Rejected FileDoesNotExist, self1)
         | Some file \<Rightarrow>
             if storage file \<noteq> storage_name then (Rejected FileNotInSpecifiedStorage, self1)
             else
               let (exceeded, self2) =
                     update_limit_check self1 month_key storage_name (size_kb file) new_size
               in if exceeded then (Rejected FreePlanFeeLimitExceeded, self2)
                  else update_commit self2 month_key storage_name file_name file new_size))"

subsection \<open>Month close\<close>

text \<open>
  The loop over \<^verbatim>\<open>STORAGE_UNITS.keys()\<close> of \<^verbatim>\<open>handle_calc\<close>: the accumulator is
  \<^verbatim>\<open>(current_snapshot, self.last_month_eom_storage_sizes)\<close>.
\<close>

definition snapshot_step ::
  "(string \<rightharpoonup> int) \<Rightarrow> string \<Rightarrow> (string \<rightharpoonup> int) \<times> (string \<rightharpoonup> int) \<Rightarrow>
   (string \<rightharpoonup> int) \<times> (string \<rightharpoonup> int)" where
  "snapshot_step sizes s_name acc =
    (case acc of (current_snapshot, eom) \<Rightarrow>
      (current_snapshot(s_name \<mapsto> dict_get0 sizes s_name), eom(s_name \<mapsto> dict_get0 sizes s_name)))"

definition take_snapshot :: "StorageManager \<Rightarrow> string \<Rightarrow> StorageManager" where
  "take_snapshot self month_key =
    (case calc_reported_sizes_snapshot self month_key of
       Some _ \<Rightarrow> self
     | None \<Rightarrow>
         let (current_snapshot, eom) =
               fold (snapshot_step (current_storage_size self)) (map fst STORAGE_UNITS)
                 (Map.empty, last_month_eom_storage_sizes self)
         in self\<lparr>last_month_eom_storage_sizes := eom,
                 calc_reported_sizes_snapshot :=
                   (calc_reported_sizes_snapshot self)(month_key \<mapsto> current_snapshot)\<rparr>)"

text \<open>\<^verbatim>\<open>self.calc_reported_sizes_snapshot[month_key]\<close>, present once the snapshot is taken.\<close>

definition reported_sizes_of :: "StorageManager \<Rightarrow> string \<Rightarrow> (string \<rightharpoonup> int)" where
  "reported_sizes_of self month_key =
    (case calc_reported_sizes_snapshot self month_key of Some d \<Rightarrow> d | None \<Rightarrow> Map.empty)"

definition handle_calc :: "StorageManager \<Rightarrow> datetime \<Rightarrow> py_error + reply \<times> StorageManager" where
  "handle_calc self timestamp =
    (case get_previous_month_key timestamp of
       Inl e \<Rightarrow> Inl e
     | Inr month_key \<Rightarrow>
         let (total_fees, self1) = calculate_total_fees self month_key;
             self2 = take_snapshot self1 month_key;
             reported_sizes = reported_sizes_of self2 month_key;
             report_kb_a1 = dict_get0 reported_sizes ''storage_A1'';
             report_kb_a2 = dict_get0 reported_sizes ''storage_A2'';
             report_kb_b1 = dict_get0 reported_sizes ''storage_B1'';
             report_kb_b2 = dict_get0 reported_sizes ''storage_B2'';
             self3 = self2\<lparr>update_fee_settled_for_month :=
               insert month_key (update_fee_settled_for_month self2)\<rparr>
         in Inr (Report report_kb_a1 report_kb_a2 report_kb_b1 report_kb_b2 total_fees, self3))"

subsection \<open>Commands\<close>

text \<open>
  A parsed command line, as \<^verbatim>\<open>process_command\<close> routes it to a handler.
  \<open>exec_command\<close> gives the handler's outcome and the manager after the call
  (\<^verbatim>\<open>handle_calc\<close> raises before it writes anything, so the manager is then as it
  was); \<open>run_commands\<close> feeds a list of commands to one manager in order.
\<close>

datatype command =
  Upload datetime string string int
  | Delete datetime string string
  | Update datetime string string int
  | Calc datetime

fun exec_command :: "StorageManager \<Rightarrow> command \<Rightarrow> (py_error + reply) \<times> StorageManager" where
  "exec_command self (Upload ts storage_name file_name sz) =
     (case handle_upload self ts storage_name file_name sz of (r, self') \<Rightarrow> (Inr r, self'))"
| "exec_command self (Delete ts storage_name file_name) =
     (case handle_delete self ts storage_name file_name of (r, self') \<Rightarrow> (Inr r, self'))"
| "exec_command self (Update ts storage_name file_name new_size) =
     (case handle_update self ts storage_name file_name new_size of (r, self') \<Rightarrow> (Inr r, self'))"
| "exec_command self (Calc ts) =
     (case handle_calc self ts of Inl e \<Rightarrow> (Inl e, self) | Inr (r, self') \<Rightarrow> (Inr r, self'))"

definition run_command :: "StorageManager \<Rightarrow> command \<Rightarrow> StorageManager" where
  "run_command self c = snd (exec_command self c)"

definition run_commands :: "StorageManager \<Rightarrow> command list \<Rightarrow> StorageManager" where
  "run_commands self cmds = fold (\<lambda>c s. run_command s c) cmds self"


text \<open>The month a command works on: its own, or for a month close the one before.\<close>

fun command_month :: "command \<Rightarrow> py_error + string" where
  "command_month (Upload ts storage_name file_name sz) = Inr (get_month_key ts)"
| "command_month (Delete ts storage_name file_name) = Inr (get_month_key ts)"
| "command_month (Update ts storage_name file_name new_size) = Inr (get_month_key ts)"
| "command_month (Calc ts) = get_previous_month_key ts"

section \<open>Reading the ledger\<close>

text \<open>
  What \<^verbatim>\<open>d[u]\<close> reads from a month's \<^verbatim>\<open>defaultdict(MonthlyStats)\<close>: the stored
  entry, or the default for a key that is not stored.
\<close>

definition stats_read :: "(string \<rightharpoonup> MonthlyStats) \<Rightarrow> string \<Rightarrow> MonthlyStats" where
  "stats_read d u = (case d u of None \<Rightarrow> MonthlyStats_default | Some v \<Rightarrow> v)"

definition month_read :: "StorageManager \<Rightarrow> string \<Rightarrow> string \<Rightarrow> MonthlyStats" where
  "month_read self month_key u = stats_read (month_data self month_key) u"

text \<open>
  \<open>default_ext d d'\<close>: \<open>d'\<close> is \<open>d\<close> with default entries added for some missing keys,
  which is all that reading a \<^verbatim>\<open>defaultdict\<close> does to it.
\<close>

definition default_ext :: "(string \<rightharpoonup> MonthlyStats) \<Rightarrow> (string \<rightharpoonup> MonthlyStats) \<Rightarrow> bool" where
  "default_ext d d' = (\<forall>u. d' u = d u \<or> (d u = None \<and> d' u = Some MonthlyStats_default))"

text \<open>The integer and the decimal fee of one unit for a KB figure, zero unless it is positive.\<close>

definition int_fee :: "int \<Rightarrow> rat \<Rightarrow> int" where
  "int_fee kb rate = (if kb > 0 then \<lceil>fee_dec (kb_to_mb kb) rate\<rceil> else 0)"

definition dec_fee :: "int \<Rightarrow> rat \<Rightarrow> rat" where
  "dec_fee kb rate = (if kb > 0 then fee_dec (kb_to_mb kb) rate else 0)"





text \<open>
  The entries a run of \<^verbatim>\<open>d[u]\<close> reads over the names \<open>us\<close> adds to a month, and
  the manager whose month \<open>month_key\<close> has been read so.
\<close>

definition touch_all :: "string list \<Rightarrow> (string \<rightharpoonup> MonthlyStats) \<Rightarrow> (string \<rightharpoonup> MonthlyStats)" where
  "touch_all us d = fold (\<lambda>u d. snd (stats_getitem d u)) us d"

definition touch_month :: "StorageManager \<Rightarrow> string \<Rightarrow> string list \<Rightarrow> StorageManager" where
  "touch_month self month_key us =
    self\<lparr>monthly_stats :=
      (monthly_stats self)(month_key \<mapsto> touch_all us (month_data self month_key))\<rparr>"

definition free_plan_units :: "(string \<times> StorageUnit) list" where
  "free_plan_units = filter (\<lambda>(s_name, s_unit). is_free_plan_allowed s_unit) STORAGE_UNITS"

text \<open>
  The sums of a month's fees over a list of units, as functions of what the month's
  entries read: integer (per-unit ceiling) and decimal (no ceiling) storage and update
  fees; \<open>settled\<close> zeroes the update traffic.
\<close>

definition fee_storage_sum :: "(string \<rightharpoonup> MonthlyStats) \<Rightarrow> (string \<times> StorageUnit) list \<Rightarrow> int" where
  "fee_storage_sum d xs =
    sum_list (map (\<lambda>(s_name, s_unit).
      int_fee (max_size (stats_read d s_name)) (store_fee_per_mb s_unit)) xs)"

definition fee_update_sum ::
  "bool \<Rightarrow> (string \<rightharpoonup> MonthlyStats) \<Rightarrow> (string \<times> StorageUnit) list \<Rightarrow> int" where
  "fee_update_sum settled d xs =
    sum_list (map (\<lambda>(s_name, s_unit).
      int_fee (if settled then 0 else update_kb_sum (stats_read d s_name))
        (update_fee_per_mb s_unit)) xs)"

definition dec_storage_sum :: "(string \<rightharpoonup> MonthlyStats) \<Rightarrow> (string \<times> StorageUnit) list \<Rightarrow> rat" where
  "dec_storage_sum d xs =
    sum_list (map (\<lambda>(s_name, s_unit).
      dec_fee (max_size (stats_read d s_name)) (store_fee_per_mb s_unit)) xs)"

definition dec_update_sum ::
  "bool \<Rightarrow> (string \<rightharpoonup> MonthlyStats) \<Rightarrow> (string \<times> StorageUnit) list \<Rightarrow> rat" where
  "dec_update_sum settled d xs =
    sum_list (map (\<lambda>(s_name, s_unit).
      dec_fee (if settled then 0 else update_kb_sum (stats_read d s_name))
        (update_fee_per_mb s_unit)) xs)"

text \<open>The fees of a month as a function of what the month's entries read.\<close>

definition month_fees :: "StorageManager \<Rightarrow> string \<Rightarrow> Fees" where
  "month_fees self month_key =
    (let d = month_data (ensure_month_init self month_key) month_key;
         xs = storages_to_check self;
         settled = (month_key \<in> update_fee_settled_for_month self)
     in \<lparr>storage_fee = fee_storage_sum d xs,
         update_fee = fee_update_sum settled d xs,
         usage_fee = \<lceil>max 0 (dec_storage_sum d xs + dec_update_sum settled d xs - 1000)\<rceil>\<rparr>)"

text \<open>
  The simulated total of \<^verbatim>\<open>_would_exceed_free_plan_limit\<close> in the words of its
  docstring: over the units of the free plan, the integer storage fee plus the integer
  update fee, the operation's unit taking the potential maximum size and the traffic the
  operation adds.
\<close>

definition sim_storage_sum ::
  "string \<Rightarrow> int \<Rightarrow> (string \<rightharpoonup> MonthlyStats) \<Rightarrow> (string \<times> StorageUnit) list \<Rightarrow> int" where
  "sim_storage_sum n pot d xs =
    sum_list (map (\<lambda>(s_name, s_unit).
        int_fee (if s_name = n then pot else max_size (stats_read d s_name))
          (store_fee_per_mb s_unit)) xs)"

definition sim_update_sum ::
  "string \<Rightarrow> int \<Rightarrow> (string \<rightharpoonup> MonthlyStats) \<Rightarrow> (string \<times> StorageUnit) list \<Rightarrow> int" where
  "sim_update_sum n kb d xs =
    sum_list (map (\<lambda>(s_name, s_unit).
        int_fee (if s_name = n then update_kb_sum (stats_read d s_name) + kb
                 else update_kb_sum (stats_read d s_name)) (update_fee_per_mb s_unit)) xs)"

definition sim_total :: "StorageManager \<Rightarrow> string \<Rightarrow> string \<Rightarrow> int \<Rightarrow> int \<Rightarrow> int" where
  "sim_total self month_key op_storage_name op_potential_max_size_kb op_kb_for_current_op =
    (let d = month_data (ensure_month_init self month_key) month_key
     in sim_storage_sum op_storage_name op_potential_max_size_kb d free_plan_units +
        sim_update_sum op_storage_name op_kb_for_current_op d free_plan_units)"

text \<open>
  The manager a month close of month \<open>M\<close> leaves: the month read for its fees, the
  snapshot taken if there was none, the month settled.
\<close>

definition closed_state :: "StorageManager \<Rightarrow> string \<Rightarrow> StorageManager" where
  "closed_state s M =
    (take_snapshot (touch_month (ensure_month_init s M) M (map fst (storages_to_check s))) M)
      \<lparr>update_fee_settled_for_month := insert M (update_fee_settled_for_month s)\<rparr>"

text \<open>
  The sum of the sizes of the files registered to a unit, and the conservation
  invariant: file names are unique and each unit's occupancy is that sum.
\<close>

definition unit_total :: "(string \<times> File) list \<Rightarrow> string \<Rightarrow> int" where
  "unit_total fs u = sum_list (map size_kb (filter (\<lambda>file. storage file = u) (map snd fs)))"

definition conserved :: "StorageManager \<Rightarrow> bool" where
  "conserved s =
    (distinct (map fst (files s)) \<and>
     (\<forall>u. dict_get0 (current_storage_size s) u = unit_total (files s) u))"

text \<open>
  Every registered file has a size that is not negative; a command carries no negative
  size.
\<close>

definition files_nonneg :: "StorageManager \<Rightarrow> bool" where
  "files_nonneg s = (\<forall>p \<in> set (files s). 0 \<le> size_kb (snd p))"

fun nonneg_command :: "command \<Rightarrow> bool" where
  "nonneg_command (Upload ts storage_name file_name sz) = (0 \<le> sz)"
| "nonneg_command (Update ts storage_name file_name new_size) = (0 \<le> new_size)"
| "nonneg_command (Delete ts storage_name file_name) = True"
| "nonneg_command (Calc ts) = True"

text \<open>The fee figures a reply carries, if any.\<close>

fun reply_fees :: "reply \<Rightarrow> Fees option" where
  "reply_fees (Rejected r) = None"
| "reply_fees (Accepted f) = Some f"
| "reply_fees (Report a1 a2 b1 b2 f) = Some f"

text \<open>The line \<^verbatim>\<open>handle_calc\<close> returns.\<close>

definition calc_line :: "StorageManager \<Rightarrow> datetime \<Rightarrow> py_error + string" where
  "calc_line self ts = map_sum id (\<lambda>(r, s). render_reply ''CALC'' r) (handle_calc self ts)"

text \<open>A command writes a month when it is an upload, delete or update stamped in it.\<close>

fun writes_month :: "string \<Rightarrow> command \<Rightarrow> bool" where
  "writes_month M (Upload ts storage_name file_name sz) = (get_month_key ts = M)"
| "writes_month M (Delete ts storage_name file_name) = (get_month_key ts = M)"
| "writes_month M (Update ts storage_name file_name new_size) = (get_month_key ts = M)"
| "writes_month M (Calc ts) = False"


section \<open>Timestamps of the worked examples\<close>

text \<open>\<^verbatim>\<open>datetime(y, m, d)\<close>: midnight of the day.\<close>

definition date :: "nat \<Rightarrow> nat \<Rightarrow> nat \<Rightarrow> datetime" where
  "date y m d =
    \<lparr>year = y, month = m, day = d, hour = 0, minute = 0, second = 0, microsecond = 0\<rparr>"

definition jan_05 :: datetime where
  "jan_05 = date 2024 1 5"

definition jan_06 :: datetime where
  "jan_06 = date 2024 1 6"

definition jan_07 :: datetime where
  "jan_07 = date 2024 1 7"

definition feb_01 :: datetime where
  "feb_01 = date 2024 2 1"

definition feb_05 :: datetime where
  "feb_05 = date 2024 2 5"

section \<open>States of the worked examples\<close>

text \<open>A fresh free-plan manager after \<^verbatim>\<open>UPLOAD storage_A1 f1 500\<close> on 2024-01-05.\<close>

definition after_first_upload :: StorageManager where
  "after_first_upload = snd (handle_upload (init_manager True) jan_05 ''storage_A1'' ''f1'' 500)"

text \<open>The same manager after \<^verbatim>\<open>CALC\<close> on 2024-02-01, which closes January.\<close>

definition after_first_close :: StorageManager where
  "after_first_close = run_command after_first_upload (Calc feb_01)"

text \<open>
  A fresh free-plan manager after \<^verbatim>\<open>UPLOAD storage_A2 big 90000000\<close> on 2024-01-05,
  and the same after \<^verbatim>\<open>CALC\<close> on 2024-02-01.
\<close>

definition after_big_upload :: StorageManager where
  "after_big_upload =
     snd (handle_upload (init_manager True) jan_05 ''storage_A2'' ''big'' 90000000)"

definition after_big_close :: StorageManager where
  "after_big_close = run_command after_big_upload (Calc feb_01)"


section \<open>Lemmas on the ledger\<close>

lemma stats_getitem_fst: "fst (stats_getitem d k) = stats_read d k"
  by (simp add: stats_getitem_def stats_read_def split: option.splits)

lemma stats_getitem_ext: "default_ext d (snd (stats_getitem d k))"
  by (simp add: stats_getitem_def default_ext_def split: option.splits)

lemma default_ext_refl: "default_ext d d"
  by (simp add: default_ext_def)

lemma default_ext_trans: "default_ext d d' \<Longrightarrow> default_ext d' d'' \<Longrightarrow> default_ext d d''"
  unfolding default_ext_def by metis

lemma default_ext_read: "default_ext d d' \<Longrightarrow> stats_read d' = stats_read d"
  unfolding default_ext_def stats_read_def fun_eq_iff by (metis option.simps(4,5))

lemma touch_all_Nil [simp]: "touch_all [] d = d"
  by (simp add: touch_all_def)

lemma touch_all_Cons [simp]: "touch_all (u # us) d = touch_all us (snd (stats_getitem d u))"
  by (simp add: touch_all_def)

lemma touch_all_ext: "default_ext d (touch_all us d)"
proof (induction us arbitrary: d)
  case Nil
  show ?case by (simp add: default_ext_refl)
next
  case (Cons u us)
  have "default_ext d (snd (stats_getitem d u))" by (rule stats_getitem_ext)
  moreover have "default_ext (snd (stats_getitem d u)) (touch_all us (snd (stats_getitem d u)))"
    by (rule Cons.IH)
  ultimately show ?case by (simp add: default_ext_trans)
qed

lemma touch_all_read [simp]: "stats_read (touch_all us d) = stats_read d"
  using touch_all_ext by (rule default_ext_read)

lemma stats_getitem_read [simp]: "stats_read (snd (stats_getitem d u)) = stats_read d"
  using stats_getitem_ext by (rule default_ext_read)

subsection \<open>The two fee loops in closed form\<close>

lemma sim_unit_step_eq:
  "sim_unit_step n pot kb (s_name, s_unit) (a, b, d) =
    (if is_free_plan_allowed s_unit
     then (a + int_fee (if s_name = n then pot else max_size (stats_read d s_name))
                 (store_fee_per_mb s_unit),
           b + int_fee (if s_name = n then update_kb_sum (stats_read d s_name) + kb
                        else update_kb_sum (stats_read d s_name)) (update_fee_per_mb s_unit),
           snd (stats_getitem d s_name))
     else (a, b, d))"
  using stats_getitem_fst[of d s_name]
  by (cases "stats_getitem d s_name") (simp add: sim_unit_step_def Let_def int_fee_def)

lemma sim_storage_sum_Cons:
  "sim_storage_sum n pot d ((s_name, s_unit) # xs) =
     int_fee (if s_name = n then pot else max_size (stats_read d s_name))
       (store_fee_per_mb s_unit) + sim_storage_sum n pot d xs"
  by (simp add: sim_storage_sum_def)

lemma sim_update_sum_Cons:
  "sim_update_sum n kb d ((s_name, s_unit) # xs) =
     int_fee (if s_name = n then update_kb_sum (stats_read d s_name) + kb
              else update_kb_sum (stats_read d s_name)) (update_fee_per_mb s_unit) +
     sim_update_sum n kb d xs"
  by (simp add: sim_update_sum_def)

lemma sim_sums_read:
  "stats_read d' = stats_read d \<Longrightarrow> sim_storage_sum n pot d' xs = sim_storage_sum n pot d xs"
  "stats_read d' = stats_read d \<Longrightarrow> sim_update_sum n kb d' xs = sim_update_sum n kb d xs"
  by (simp_all add: sim_storage_sum_def sim_update_sum_def cong: if_cong)

lemma sim_fold:
  "fold (sim_unit_step n pot kb) xs (a, b, d) =
     (a + sim_storage_sum n pot d (filter (\<lambda>(s_name, s_unit). is_free_plan_allowed s_unit) xs),
      b + sim_update_sum n kb d (filter (\<lambda>(s_name, s_unit). is_free_plan_allowed s_unit) xs),
      touch_all (map fst (filter (\<lambda>(s_name, s_unit). is_free_plan_allowed s_unit) xs)) d)"
proof (induction xs arbitrary: a b d)
  case Nil
  show ?case by (simp add: sim_storage_sum_def sim_update_sum_def)
next
  case (Cons x xs)
  obtain s_name s_unit where x: "x = (s_name, s_unit)" by (cases x)
  show ?case
  proof (cases "is_free_plan_allowed s_unit")
    case False
    then show ?thesis unfolding x by (simp add: sim_unit_step_eq Cons.IH)
  next
    case True
    have rd: "stats_read (snd (stats_getitem d s_name)) = stats_read d" by simp
    show ?thesis unfolding x using True
      by (simp add: sim_unit_step_eq Cons.IH sim_storage_sum_Cons sim_update_sum_Cons
          sim_sums_read[OF rd])
  qed
qed

lemma fee_unit_step_eq:
  "fee_unit_step settled (s_name, s_unit) (a, b, c, e, d) =
    (a + int_fee (max_size (stats_read d s_name)) (store_fee_per_mb s_unit),
     b + int_fee (if settled then 0 else update_kb_sum (stats_read d s_name))
           (update_fee_per_mb s_unit),
     c + dec_fee (max_size (stats_read d s_name)) (store_fee_per_mb s_unit),
     e + dec_fee (if settled then 0 else update_kb_sum (stats_read d s_name))
           (update_fee_per_mb s_unit),
     snd (stats_getitem d s_name))"
  using stats_getitem_fst[of d s_name]
  by (cases "stats_getitem d s_name") (simp add: fee_unit_step_def Let_def int_fee_def dec_fee_def)

lemma fee_sums_Cons:
  "fee_storage_sum d ((s_name, s_unit) # xs) =
     int_fee (max_size (stats_read d s_name)) (store_fee_per_mb s_unit) + fee_storage_sum d xs"
  "fee_update_sum settled d ((s_name, s_unit) # xs) =
     int_fee (if settled then 0 else update_kb_sum (stats_read d s_name))
       (update_fee_per_mb s_unit) + fee_update_sum settled d xs"
  "dec_storage_sum d ((s_name, s_unit) # xs) =
     dec_fee (max_size (stats_read d s_name)) (store_fee_per_mb s_unit) + dec_storage_sum d xs"
  "dec_update_sum settled d ((s_name, s_unit) # xs) =
     dec_fee (if settled then 0 else update_kb_sum (stats_read d s_name))
       (update_fee_per_mb s_unit) + dec_update_sum settled d xs"
  by (simp_all add: fee_storage_sum_def fee_update_sum_def dec_storage_sum_def dec_update_sum_def)

lemma fee_sums_read:
  "stats_read d' = stats_read d \<Longrightarrow> fee_storage_sum d' xs = fee_storage_sum d xs"
  "stats_read d' = stats_read d \<Longrightarrow> fee_update_sum settled d' xs = fee_update_sum settled d xs"
  "stats_read d' = stats_read d \<Longrightarrow> dec_storage_sum d' xs = dec_storage_sum d xs"
  "stats_read d' = stats_read d \<Longrightarrow> dec_update_sum settled d' xs = dec_update_sum settled d xs"
  by (simp_all add: fee_storage_sum_def fee_update_sum_def dec_storage_sum_def dec_update_sum_def
      cong: if_cong)

lemma fee_fold:
  "fold (fee_unit_step settled) xs (a, b, c, e, d) =
     (a + fee_storage_sum d xs, b + fee_update_sum settled d xs,
      c + dec_storage_sum d xs, e + dec_update_sum settled d xs, touch_all (map fst xs) d)"
proof (induction xs arbitrary: a b c e d)
  case Nil
  show ?case
    by (simp add: fee_storage_sum_def fee_update_sum_def dec_storage_sum_def dec_update_sum_def)
next
  case (Cons x xs)
  obtain s_name s_unit where x: "x = (s_name, s_unit)" by (cases x)
  have rd: "stats_read (snd (stats_getitem d s_name)) = stats_read d" by simp
  show ?case unfolding x
    by (simp add: fee_unit_step_eq Cons.IH fee_sums_Cons fee_sums_read[OF rd])
qed

lemma ensure_month_init_fields [simp]:
  "is_free_plan (ensure_month_init s mk) = is_free_plan s"
  "files (ensure_month_init s mk) = files s"
  "current_storage_size (ensure_month_init s mk) = current_storage_size s"
  "calc_reported_sizes_snapshot (ensure_month_init s mk) = calc_reported_sizes_snapshot s"
  "update_fee_settled_for_month (ensure_month_init s mk) = update_fee_settled_for_month s"
  "last_month_eom_storage_sizes (ensure_month_init s mk) = last_month_eom_storage_sizes s"
  by (simp_all add: ensure_month_init_def split: option.splits)

lemma touch_month_fields [simp]:
  "is_free_plan (touch_month s mk us) = is_free_plan s"
  "files (touch_month s mk us) = files s"
  "current_storage_size (touch_month s mk us) = current_storage_size s"
  "calc_reported_sizes_snapshot (touch_month s mk us) = calc_reported_sizes_snapshot s"
  "update_fee_settled_for_month (touch_month s mk us) = update_fee_settled_for_month s"
  "last_month_eom_storage_sizes (touch_month s mk us) = last_month_eom_storage_sizes s"
  by (simp_all add: touch_month_def)

lemma stats_store_fields [simp]:
  "is_free_plan (stats_store s mk u v) = is_free_plan s"
  "files (stats_store s mk u v) = files s"
  "current_storage_size (stats_store s mk u v) = current_storage_size s"
  "calc_reported_sizes_snapshot (stats_store s mk u v) = calc_reported_sizes_snapshot s"
  "update_fee_settled_for_month (stats_store s mk u v) = update_fee_settled_for_month s"
  "last_month_eom_storage_sizes (stats_store s mk u v) = last_month_eom_storage_sizes s"
  by (simp_all add: stats_store_def)

lemma storages_to_check_simps [simp]:
  "storages_to_check (ensure_month_init s mk) = storages_to_check s"
  "storages_to_check (touch_month s mk us) = storages_to_check s"
  "storages_to_check (stats_store s mk u v) = storages_to_check s"
  by (simp_all add: storages_to_check_def)

lemma would_exceed_eq:
  "would_exceed_free_plan_limit self mk n pot kb =
    (if \<not> is_free_plan self then (False, self)
     else (1000 < sim_total self mk n pot kb,
           touch_month (ensure_month_init self mk) mk (map fst free_plan_units)))"
  by (simp add: would_exceed_free_plan_limit_def sim_fold sim_total_def Let_def touch_month_def
      free_plan_units_def)

lemma calculate_total_fees_eq:
  "calculate_total_fees self mk =
    (month_fees self mk,
     touch_month (ensure_month_init self mk) mk (map fst (storages_to_check self)))"
  by (simp add: calculate_total_fees_def fee_fold month_fees_def Let_def touch_month_def)

lemma stats_lookup_eq:
  "stats_lookup self mk u = (month_read self mk u, touch_month self mk [u])"
  using stats_getitem_fst[of "month_data self mk" u]
  by (cases "stats_getitem (month_data self mk) u")
     (simp add: stats_lookup_def month_read_def touch_month_def)

subsection \<open>Evaluation of concrete inputs\<close>

lemma str_nat_small: "n < 10 \<Longrightarrow> str_nat n = [''0123456789'' ! n]"
  by (simp add: str_nat.simps)

lemma str_nat_large: "\<not> n < 10 \<Longrightarrow> str_nat n = str_nat (n div 10) @ [''0123456789'' ! (n mod 10)]"
  by (subst str_nat.simps) simp

lemma month_key_date_simps:
  "get_month_key jan_05 = ''2024-01''"
  "get_month_key jan_06 = ''2024-01''"
  "get_month_key jan_07 = ''2024-01''"
  "get_month_key feb_01 = ''2024-02''"
  "get_month_key feb_05 = ''2024-02''"
  "get_previous_month_key feb_01 = Inr ''2024-01''"
  "get_previous_month_key feb_05 = Inr ''2024-01''"
  by (simp_all add: get_month_key_def get_previous_month_key_def minus_one_day_def
      jan_05_def jan_06_def jan_07_def feb_01_def feb_05_def date_def str_02d_def
      str_nat_small str_nat_large)

lemma stats_read_simps:
  "stats_read (d(k \<mapsto> v)) u = (if u = k then v else stats_read d u)"
  "stats_read Map.empty u = MonthlyStats_default"
  "stats_read (\<lambda>s_name. map_option f (e s_name)) u =
     (case e u of None \<Rightarrow> MonthlyStats_default | Some x \<Rightarrow> f x)"
  by (simp_all add: stats_read_def split: option.splits)

lemma dict_get0_simps:
  "dict_get0 (d(k \<mapsto> v)) u = (if u = k then v else dict_get0 d u)"
  "dict_get0 Map.empty u = 0"
  by (simp_all add: dict_get0_def)

lemma MonthlyStats_default_simps:
  "max_size MonthlyStats_default = 0" "update_kb_sum MonthlyStats_default = 0"
  by (simp_all add: MonthlyStats_default_def)

lemma fee_pos:
  "0 < kb \<Longrightarrow> int_fee kb rate = \<lceil>fee_dec (kb_to_mb kb) rate\<rceil>"
  "0 < kb \<Longrightarrow> dec_fee kb rate = fee_dec (kb_to_mb kb) rate"
  by (simp_all add: int_fee_def dec_fee_def)

lemma fee_nonpos:
  "kb \<le> 0 \<Longrightarrow> int_fee kb rate = 0"
  "kb \<le> 0 \<Longrightarrow> dec_fee kb rate = 0"
  by (simp_all add: int_fee_def dec_fee_def)

lemma kb_to_mb_eq: "kb_to_mb kb = - (- kb div 1000)"
  using ceiling_divide_eq_div[of kb 1000, where ?'a = rat]
  by (simp add: kb_to_mb_def KB_TO_MB_DIVISOR_def)

lemma ceiling_rat_numeral_div:
  "\<lceil>numeral a / numeral b :: rat\<rceil> = - (- numeral a div numeral b)"
  using ceiling_divide_eq_div[of "numeral a" "numeral b", where ?'a = rat] by simp

lemma ceiling_rat_neg_numeral_div:
  "\<lceil>- (numeral a / numeral b :: rat)\<rceil> = - (numeral a div numeral b)"
  using ceiling_divide_eq_div[of "- numeral a" "numeral b", where ?'a = rat] by simp

lemma ceiling_rat_one_div: "\<lceil>1 / numeral b :: rat\<rceil> = - (- 1 div numeral b)"
  using ceiling_divide_eq_div[of 1 "numeral b", where ?'a = rat] by simp

lemmas unfold_eval = handle_upload_def upload_limit_check_def upload_commit_def
  handle_delete_def delete_limit_check_def delete_commit_def
  handle_update_def update_limit_check_def update_commit_def
  handle_calc_def stats_lookup_eq would_exceed_eq calculate_total_fees_eq Let_def
  month_key_date_simps

lemmas state_eval = init_manager_def ensure_month_init_def touch_month_def month_data_def
  month_read_def stats_store_def stats_getitem_def STORAGE_UNITS_def free_plan_units_def
  storages_to_check_def stats_read_simps dict_get0_simps MonthlyStats_default_simps
  take_snapshot_def snapshot_step_def reported_sizes_of_def MonthlyStats_default_def

lemmas sums_eval = sim_total_def sim_storage_sum_def sim_update_sum_def month_fees_def
  fee_storage_sum_def fee_update_sum_def dec_storage_sum_def dec_update_sum_def

lemmas arith_eval = fee_pos fee_nonpos fee_dec_def kb_to_mb_eq
  ceiling_rat_numeral_div ceiling_rat_neg_numeral_div ceiling_rat_one_div

lemmas run_eval = unfold_eval state_eval sums_eval arith_eval

subsection \<open>Observations of the elementary state changes\<close>

lemma month_data_updates [simp]:
  "month_data (s\<lparr>files := fs\<rparr>) = month_data s"
  "month_data (s\<lparr>current_storage_size := c\<rparr>) = month_data s"
  "month_data (s\<lparr>calc_reported_sizes_snapshot := sn\<rparr>) = month_data s"
  "month_data (s\<lparr>update_fee_settled_for_month := st\<rparr>) = month_data s"
  "month_data (s\<lparr>last_month_eom_storage_sizes := e\<rparr>) = month_data s"
  by (simp_all add: month_data_def fun_eq_iff)

lemma month_read_updates [simp]:
  "month_read (s\<lparr>files := fs\<rparr>) = month_read s"
  "month_read (s\<lparr>current_storage_size := c\<rparr>) = month_read s"
  "month_read (s\<lparr>calc_reported_sizes_snapshot := sn\<rparr>) = month_read s"
  "month_read (s\<lparr>update_fee_settled_for_month := st\<rparr>) = month_read s"
  "month_read (s\<lparr>last_month_eom_storage_sizes := e\<rparr>) = month_read s"
  by (simp_all add: month_read_def fun_eq_iff)

lemma monthly_stats_ensure:
  "monthly_stats (ensure_month_init s mk) m =
    (if m = mk \<and> monthly_stats s mk = None
     then Some (\<lambda>s_name. map_option (\<lambda>eom_size. MonthlyStats_default\<lparr>max_size := eom_size\<rparr>)
                 (last_month_eom_storage_sizes s s_name))
     else monthly_stats s m)"
  by (simp add: ensure_month_init_def split: option.splits)

lemma monthly_stats_touch:
  "monthly_stats (touch_month s mk us) m =
    (if m = mk then Some (touch_all us (month_data s mk)) else monthly_stats s m)"
  by (simp add: touch_month_def)

lemma monthly_stats_store:
  "monthly_stats (stats_store s mk u v) m =
    (if m = mk then Some ((month_data s mk)(u \<mapsto> v)) else monthly_stats s m)"
  by (simp add: stats_store_def)

lemma ensure_present [simp]: "monthly_stats (ensure_month_init s mk) mk \<noteq> None"
  by (simp add: monthly_stats_ensure)

lemma ensure_idle: "monthly_stats s mk \<noteq> None \<Longrightarrow> ensure_month_init s mk = s"
  by (auto simp add: ensure_month_init_def)

lemma ensure_touch [simp]: "ensure_month_init (touch_month s mk us) mk = touch_month s mk us"
  by (simp add: ensure_idle monthly_stats_touch)

lemma ensure_store [simp]: "ensure_month_init (stats_store s mk u v) mk = stats_store s mk u v"
  by (simp add: ensure_idle monthly_stats_store)

lemma ensure_ensure [simp]:
  "ensure_month_init (ensure_month_init s mk) mk = ensure_month_init s mk"
  by (simp add: ensure_idle)

lemma ensure_updates [simp]:
  "ensure_month_init (s\<lparr>files := fs\<rparr>) mk = (ensure_month_init s mk)\<lparr>files := fs\<rparr>"
  "ensure_month_init (s\<lparr>current_storage_size := c\<rparr>) mk =
     (ensure_month_init s mk)\<lparr>current_storage_size := c\<rparr>"
  by (simp_all add: ensure_month_init_def split: option.splits)

lemma touch_all_append: "touch_all (us @ vs) d = touch_all vs (touch_all us d)"
  by (simp add: touch_all_def)

lemma month_data_touch:
  "month_data (touch_month s mk us) m =
     (if m = mk then touch_all us (month_data s mk) else month_data s m)"
  by (simp add: month_data_def monthly_stats_touch)

lemma month_data_store:
  "month_data (stats_store s mk u v) m =
     (if m = mk then (month_data s mk)(u \<mapsto> v) else month_data s m)"
  by (simp add: month_data_def monthly_stats_store)

lemma touch_touch [simp]:
  "touch_month (touch_month s mk us) mk vs = touch_month s mk (us @ vs)"
  by (simp add: touch_month_def touch_all_append month_data_def)

lemma month_read_touch [simp]: "month_read (touch_month s mk us) = month_read s"
  by (auto simp add: month_read_def month_data_touch fun_eq_iff)

lemma month_read_store:
  "month_read (stats_store s mk u v) m x =
     (if m = mk \<and> x = u then v else month_read s m x)"
  by (simp add: month_read_def month_data_store stats_read_def)

lemma month_read_ensure:
  "monthly_stats s m \<noteq> None \<Longrightarrow> month_read (ensure_month_init s mk) m = month_read s m"
  by (auto simp add: month_read_def month_data_def monthly_stats_ensure fun_eq_iff)

lemma month_read_ensure_other:
  "m \<noteq> mk \<Longrightarrow> month_read (ensure_month_init s mk) m = month_read s m"
  by (auto simp add: month_read_def month_data_def monthly_stats_ensure fun_eq_iff)

text \<open>What a month created now reads: the seed table's size as watermark, no traffic.\<close>

lemma month_read_seeded:
  "monthly_stats s mk = None \<Longrightarrow>
   month_read (ensure_month_init s mk) mk u =
     \<lparr>max_size = dict_get0 (last_month_eom_storage_sizes s) u, update_kb_sum = 0\<rparr>"
  by (simp add: month_read_def month_data_def monthly_stats_ensure stats_read_def dict_get0_def
      MonthlyStats_default_def split: option.splits)


lemmas handler_defs = handle_upload_def upload_limit_check_def upload_commit_def
  handle_delete_def delete_limit_check_def delete_commit_def
  handle_update_def update_limit_check_def update_commit_def
  stats_lookup_eq would_exceed_eq calculate_total_fees_eq Let_def

lemma handle_upload_frame [simp]:
  "is_free_plan (snd (handle_upload s ts u f sz)) = is_free_plan s"
  "calc_reported_sizes_snapshot (snd (handle_upload s ts u f sz)) = calc_reported_sizes_snapshot s"
  "update_fee_settled_for_month (snd (handle_upload s ts u f sz)) = update_fee_settled_for_month s"
  "last_month_eom_storage_sizes (snd (handle_upload s ts u f sz)) = last_month_eom_storage_sizes s"
  by (simp_all add: handler_defs split: option.splits)

lemma handle_delete_frame [simp]:
  "is_free_plan (snd (handle_delete s ts u f)) = is_free_plan s"
  "calc_reported_sizes_snapshot (snd (handle_delete s ts u f)) = calc_reported_sizes_snapshot s"
  "update_fee_settled_for_month (snd (handle_delete s ts u f)) = update_fee_settled_for_month s"
  "last_month_eom_storage_sizes (snd (handle_delete s ts u f)) = last_month_eom_storage_sizes s"
  by (simp_all add: handler_defs split: option.splits)

lemma handle_update_frame [simp]:
  "is_free_plan (snd (handle_update s ts u f sz)) = is_free_plan s"
  "calc_reported_sizes_snapshot (snd (handle_update s ts u f sz)) = calc_reported_sizes_snapshot s"
  "update_fee_settled_for_month (snd (handle_update s ts u f sz)) = update_fee_settled_for_month s"
  "last_month_eom_storage_sizes (snd (handle_update s ts u f sz)) = last_month_eom_storage_sizes s"
  by (simp_all add: handler_defs split: option.splits)

lemma handle_upload_rejected:
  "fst (handle_upload s ts u f sz) = Rejected x \<Longrightarrow>
   snd (handle_upload s ts u f sz) = s \<or>
   (\<exists>us. snd (handle_upload s ts u f sz) =
      touch_month (ensure_month_init s (get_month_key ts)) (get_month_key ts) us)"
  by (auto simp add: handler_defs split: option.splits if_splits)

lemma handle_upload_accepted:
  assumes "fst (handle_upload s ts u f sz) = Accepted fees"
  shows "map_of (files s) f = None"
    and "files (snd (handle_upload s ts u f sz)) =
           AList.update f \<lparr>name = f, size_kb = sz, storage = u\<rparr> (files s)"
    and "current_storage_size (snd (handle_upload s ts u f sz)) =
           (current_storage_size s)(u \<mapsto> dict_get0 (current_storage_size s) u + sz)"
    and "month_read (snd (handle_upload s ts u f sz)) (get_month_key ts) =
           (month_read (ensure_month_init s (get_month_key ts)) (get_month_key ts))
             (u := \<lparr>max_size = max (max_size (month_read (ensure_month_init s (get_month_key ts))
                                    (get_month_key ts) u))
                                (dict_get0 (current_storage_size s) u + sz),
                    update_kb_sum = update_kb_sum (month_read (ensure_month_init s (get_month_key ts))
                                    (get_month_key ts) u) + sz\<rparr>)"
  using assms
  by (auto simp add: handler_defs month_read_store dict_get0_def fun_eq_iff
      split: option.splits if_splits)

lemma touch_nil: "monthly_stats s mk \<noteq> None \<Longrightarrow> touch_month s mk [] = s"
  by (auto simp add: touch_month_def month_data_def map_upd_triv)

lemma handle_delete_rejected:
  "fst (handle_delete s ts u f) = Rejected x \<Longrightarrow>
   (\<exists>us. snd (handle_delete s ts u f) =
      touch_month (ensure_month_init s (get_month_key ts)) (get_month_key ts) us)"
proof -
  have "ensure_month_init s (get_month_key ts) =
        touch_month (ensure_month_init s (get_month_key ts)) (get_month_key ts) []"
    by (simp add: touch_nil)
  moreover assume "fst (handle_delete s ts u f) = Rejected x"
  ultimately show ?thesis
    by (auto simp add: handler_defs split: option.splits if_splits)
qed

lemma handle_delete_accepted:
  assumes "fst (handle_delete s ts u f) = Accepted fees"
  shows "\<exists>file. map_of (files s) f = Some file \<and> storage file = u \<and>
           files (snd (handle_delete s ts u f)) = AList.delete f (files s) \<and>
           current_storage_size (snd (handle_delete s ts u f)) =
             (current_storage_size s)(u \<mapsto> dict_get0 (current_storage_size s) u - size_kb file) \<and>
           month_read (snd (handle_delete s ts u f)) (get_month_key ts) =
             (month_read (ensure_month_init s (get_month_key ts)) (get_month_key ts))
               (u := (month_read (ensure_month_init s (get_month_key ts)) (get_month_key ts) u)
                  \<lparr>update_kb_sum :=
                     update_kb_sum (month_read (ensure_month_init s (get_month_key ts))
                       (get_month_key ts) u) + size_kb file\<rparr>)"
  using assms
  by (auto simp add: handler_defs month_read_store dict_get0_def fun_eq_iff
      split: option.splits if_splits)

lemma handle_update_rejected:
  "fst (handle_update s ts u f sz) = Rejected x \<Longrightarrow>
   (\<exists>us. snd (handle_update s ts u f sz) =
      touch_month (ensure_month_init s (get_month_key ts)) (get_month_key ts) us)"
proof -
  have "ensure_month_init s (get_month_key ts) =
        touch_month (ensure_month_init s (get_month_key ts)) (get_month_key ts) []"
    by (simp add: touch_nil)
  moreover assume "fst (handle_update s ts u f sz) = Rejected x"
  ultimately show ?thesis
    by (auto simp add: handler_defs split: option.splits if_splits)
qed

lemma handle_update_accepted:
  assumes "fst (handle_update s ts u f sz) = Accepted fees"
  shows "\<exists>file. map_of (files s) f = Some file \<and> storage file = u \<and>
           files (snd (handle_update s ts u f sz)) =
             AList.update f (file\<lparr>size_kb := sz\<rparr>) (files s) \<and>
           current_storage_size (snd (handle_update s ts u f sz)) =
             (current_storage_size s)(u \<mapsto>
                dict_get0 (current_storage_size s) u + (sz - size_kb file)) \<and>
           month_read (snd (handle_update s ts u f sz)) (get_month_key ts) =
             (month_read (ensure_month_init s (get_month_key ts)) (get_month_key ts))
               (u := \<lparr>max_size =
                        max (max_size (month_read (ensure_month_init s (get_month_key ts))
                               (get_month_key ts) u))
                          (dict_get0 (current_storage_size s) u + (sz - size_kb file)),
                      update_kb_sum =
                        update_kb_sum (month_read (ensure_month_init s (get_month_key ts))
                          (get_month_key ts) u) + (size_kb file + sz)\<rparr>)"
  using assms
  by (auto simp add: handler_defs month_read_store dict_get0_def fun_eq_iff
      split: option.splits if_splits)

lemma handlers_never_report:
  "fst (handle_upload s ts u f sz) \<noteq> Report a1 a2 b1 b2 fees"
  "fst (handle_delete s ts u f) \<noteq> Report a1 a2 b1 b2 fees"
  "fst (handle_update s ts u f sz) \<noteq> Report a1 a2 b1 b2 fees"
  by (auto simp add: handler_defs split: option.splits if_splits)

text \<open>Months other than the operation's own are not touched, and no month disappears.\<close>

lemma handle_upload_other_month:
  "m \<noteq> get_month_key ts \<Longrightarrow>
   monthly_stats (snd (handle_upload s ts u f sz)) m = monthly_stats s m"
  by (auto simp add: handler_defs monthly_stats_touch monthly_stats_store monthly_stats_ensure
      split: option.splits if_splits)

lemma handle_delete_other_month:
  "m \<noteq> get_month_key ts \<Longrightarrow>
   monthly_stats (snd (handle_delete s ts u f)) m = monthly_stats s m"
  by (auto simp add: handler_defs monthly_stats_touch monthly_stats_store monthly_stats_ensure
      split: option.splits if_splits)

lemma handle_update_other_month:
  "m \<noteq> get_month_key ts \<Longrightarrow>
   monthly_stats (snd (handle_update s ts u f sz)) m = monthly_stats s m"
  by (auto simp add: handler_defs monthly_stats_touch monthly_stats_store monthly_stats_ensure
      split: option.splits if_splits)

lemma handlers_keep_months:
  "monthly_stats s m \<noteq> None \<Longrightarrow> monthly_stats (snd (handle_upload s ts u f sz)) m \<noteq> None"
  "monthly_stats s m \<noteq> None \<Longrightarrow> monthly_stats (snd (handle_delete s ts u f)) m \<noteq> None"
  "monthly_stats s m \<noteq> None \<Longrightarrow> monthly_stats (snd (handle_update s ts u f sz)) m \<noteq> None"
  by (auto simp add: handler_defs monthly_stats_touch monthly_stats_store monthly_stats_ensure
      split: option.splits if_splits)




subsection \<open>Month close in closed form\<close>

lemma snapshot_fold:
  "fold (snapshot_step sizes) us (snap, eom) =
     (\<lambda>n. if n \<in> set us then Some (dict_get0 sizes n) else snap n,
      \<lambda>n. if n \<in> set us then Some (dict_get0 sizes n) else eom n)"
proof (induction us arbitrary: snap eom)
  case Nil
  show ?case by simp
next
  case (Cons u us)
  have st: "snapshot_step sizes u (snap, eom) =
      (snap(u \<mapsto> dict_get0 sizes u), eom(u \<mapsto> dict_get0 sizes u))"
    by (simp add: snapshot_step_def)
  show ?case by (auto simp add: st Cons.IH fun_eq_iff)
qed

lemma take_snapshot_eq:
  "take_snapshot s M =
    (case calc_reported_sizes_snapshot s M of
       Some _ \<Rightarrow> s
     | None \<Rightarrow>
         s\<lparr>last_month_eom_storage_sizes :=
              (\<lambda>n. if n \<in> set (map fst STORAGE_UNITS)
                   then Some (dict_get0 (current_storage_size s) n)
                   else last_month_eom_storage_sizes s n),
            calc_reported_sizes_snapshot :=
              (calc_reported_sizes_snapshot s)(M \<mapsto>
                (\<lambda>n. if n \<in> set (map fst STORAGE_UNITS)
                     then Some (dict_get0 (current_storage_size s) n) else None))\<rparr>)"
  by (simp add: take_snapshot_def snapshot_fold split: option.splits)

lemma take_snapshot_fields [simp]:
  "is_free_plan (take_snapshot s M) = is_free_plan s"
  "files (take_snapshot s M) = files s"
  "current_storage_size (take_snapshot s M) = current_storage_size s"
  "monthly_stats (take_snapshot s M) = monthly_stats s"
  "update_fee_settled_for_month (take_snapshot s M) = update_fee_settled_for_month s"
  by (simp_all add: take_snapshot_eq split: option.splits)

lemma take_snapshot_present [simp]: "calc_reported_sizes_snapshot (take_snapshot s M) M \<noteq> None"
  by (simp add: take_snapshot_eq split: option.splits)

lemma take_snapshot_keeps:
  "calc_reported_sizes_snapshot s m = Some x \<Longrightarrow>
   calc_reported_sizes_snapshot (take_snapshot s M) m = Some x"
  by (auto simp add: take_snapshot_eq split: option.splits)

lemma handle_calc_eq:
  "get_previous_month_key ts = Inr M \<Longrightarrow>
   handle_calc s ts =
     Inr (Report (dict_get0 (reported_sizes_of (closed_state s M) M) ''storage_A1'')
                 (dict_get0 (reported_sizes_of (closed_state s M) M) ''storage_A2'')
                 (dict_get0 (reported_sizes_of (closed_state s M) M) ''storage_B1'')
                 (dict_get0 (reported_sizes_of (closed_state s M) M) ''storage_B2'')
                 (month_fees s M),
          closed_state s M)"
  by (simp add: handle_calc_def calculate_total_fees_eq Let_def closed_state_def
      reported_sizes_of_def)

lemma handle_calc_error:
  "get_previous_month_key ts = Inl e \<Longrightarrow> handle_calc s ts = Inl e"
  by (simp add: handle_calc_def)

lemma closed_state_fields [simp]:
  "is_free_plan (closed_state s M) = is_free_plan s"
  "files (closed_state s M) = files s"
  "current_storage_size (closed_state s M) = current_storage_size s"
  "update_fee_settled_for_month (closed_state s M) = insert M (update_fee_settled_for_month s)"
  by (simp_all add: closed_state_def)

lemma monthly_stats_closed:
  "monthly_stats (closed_state s M) =
     monthly_stats (touch_month (ensure_month_init s M) M (map fst (storages_to_check s)))"
  by (simp add: closed_state_def)

lemma month_read_closed:
  "month_read (closed_state s M) = month_read (ensure_month_init s M)"
  by (simp add: closed_state_def month_read_def month_data_def fun_eq_iff
      monthly_stats_touch monthly_stats_ensure)

lemma run_command_Calc:
  "run_command s (Calc ts) =
     (case get_previous_month_key ts of Inl e \<Rightarrow> s | Inr M \<Rightarrow> closed_state s M)"
  by (simp add: run_command_def handle_calc_eq handle_calc_error split: sum.splits)

lemma run_command_simps:
  "run_command s (Upload ts u f sz) = snd (handle_upload s ts u f sz)"
  "run_command s (Delete ts u f) = snd (handle_delete s ts u f)"
  "run_command s (Update ts u f sz) = snd (handle_update s ts u f sz)"
  by (simp_all add: run_command_def split: prod.splits)

lemma run_commands_simps [simp]:
  "run_commands s [] = s"
  "run_commands s (c # cs) = run_commands (run_command s c) cs"
  "run_commands s (cs @ ds) = run_commands (run_commands s cs) ds"
  by (simp_all add: run_commands_def)

lemma run_command_free_plan [simp]: "is_free_plan (run_command s c) = is_free_plan s"
  by (cases c) (simp_all add: run_command_simps run_command_Calc split: sum.splits)

lemma run_commands_free_plan [simp]: "is_free_plan (run_commands s cs) = is_free_plan s"
  by (induction cs arbitrary: s) simp_all

lemma run_command_settled:
  "M \<in> update_fee_settled_for_month s \<Longrightarrow> M \<in> update_fee_settled_for_month (run_command s c)"
  by (cases c) (simp_all add: run_command_simps run_command_Calc split: sum.splits)

lemma run_commands_settled:
  "M \<in> update_fee_settled_for_month s \<Longrightarrow> M \<in> update_fee_settled_for_month (run_commands s cs)"
  by (induction cs arbitrary: s) (simp_all add: run_command_settled)

lemma closed_state_snapshot_keeps:
  "calc_reported_sizes_snapshot s m = Some x \<Longrightarrow>
   calc_reported_sizes_snapshot (closed_state s M) m = Some x"
  by (simp add: closed_state_def take_snapshot_keeps)

lemma run_command_snapshot:
  "calc_reported_sizes_snapshot s m = Some x \<Longrightarrow>
   calc_reported_sizes_snapshot (run_command s c) m = Some x"
  by (cases c)
     (simp_all add: run_command_simps run_command_Calc closed_state_snapshot_keeps
       split: sum.splits)

lemma run_commands_snapshot:
  "calc_reported_sizes_snapshot s m = Some x \<Longrightarrow>
   calc_reported_sizes_snapshot (run_commands s cs) m = Some x"
  by (induction cs arbitrary: s) (simp_all add: run_command_snapshot)

lemma run_command_keeps_months:
  "monthly_stats s m \<noteq> None \<Longrightarrow> monthly_stats (run_command s c) m \<noteq> None"
  by (cases c)
     (auto simp add: run_command_simps run_command_Calc handlers_keep_months
       monthly_stats_closed monthly_stats_touch monthly_stats_ensure split: sum.splits)

subsection \<open>Conservation of occupancy\<close>

lemma unit_total_Nil [simp]: "unit_total [] u = 0"
  by (simp add: unit_total_def)

lemma unit_total_Cons [simp]:
  "unit_total ((k, f) # fs) u = (if storage f = u then size_kb f else 0) + unit_total fs u"
  by (simp add: unit_total_def)

lemma unit_total_update_new:
  "map_of fs k = None \<Longrightarrow>
   unit_total (AList.update k v fs) u = unit_total fs u + (if storage v = u then size_kb v else 0)"
  by (induction fs) (auto split: if_splits)

lemma unit_total_update_old:
  "map_of fs k = Some f \<Longrightarrow>
   unit_total (AList.update k v fs) u =
     unit_total fs u - (if storage f = u then size_kb f else 0)
       + (if storage v = u then size_kb v else 0)"
  by (induction fs) (auto split: if_splits)

lemma unit_total_delete_absent:
  "k \<notin> fst ` set fs \<Longrightarrow> unit_total (AList.delete k fs) u = unit_total fs u"
  by (induction fs) auto

lemma unit_total_delete:
  "distinct (map fst fs) \<Longrightarrow> map_of fs k = Some f \<Longrightarrow>
   unit_total (AList.delete k fs) u = unit_total fs u - (if storage f = u then size_kb f else 0)"
proof (induction fs)
  case Nil
  then show ?case by simp
next
  case (Cons p fs)
  obtain k' f' where p: "p = (k', f')" by (cases p)
  show ?case
  proof (cases "k' = k")
    case True
    with Cons.prems p have "f' = f" and "k \<notin> fst ` set fs" by auto
    with True p show ?thesis by (simp add: unit_total_delete_absent)
  next
    case False
    with Cons p show ?thesis by auto
  qed
qed

lemma conserved_init: "conserved (init_manager free)"
  by (simp add: conserved_def init_manager_def dict_get0_def)

lemma conserved_upload: "conserved s \<Longrightarrow> conserved (snd (handle_upload s ts u f sz))"
proof (cases "fst (handle_upload s ts u f sz)")
  case (Rejected x)
  assume c: "conserved s"
  from handle_upload_rejected[OF Rejected] c show ?thesis
    by (auto simp add: conserved_def)
next
  case (Accepted fees)
  assume c: "conserved s"
  from handle_upload_accepted[OF Accepted] c show ?thesis
    by (auto simp add: conserved_def distinct_update unit_total_update_new dict_get0_def)
next
  case (Report a1 a2 b1 b2 fees)
  then show ?thesis by (simp add: handlers_never_report)
qed

lemma conserved_delete: "conserved s \<Longrightarrow> conserved (snd (handle_delete s ts u f))"
proof (cases "fst (handle_delete s ts u f)")
  case (Rejected x)
  assume c: "conserved s"
  from handle_delete_rejected[OF Rejected] c show ?thesis
    by (auto simp add: conserved_def)
next
  case (Accepted fees)
  assume c: "conserved s"
  from handle_delete_accepted[OF Accepted] c show ?thesis
    by (auto simp add: conserved_def distinct_delete unit_total_delete dict_get0_def)
next
  case (Report a1 a2 b1 b2 fees)
  then show ?thesis by (simp add: handlers_never_report)
qed

lemma conserved_update: "conserved s \<Longrightarrow> conserved (snd (handle_update s ts u f sz))"
proof (cases "fst (handle_update s ts u f sz)")
  case (Rejected x)
  assume c: "conserved s"
  from handle_update_rejected[OF Rejected] c show ?thesis
    by (auto simp add: conserved_def)
next
  case (Accepted fees)
  assume c: "conserved s"
  from handle_update_accepted[OF Accepted] c show ?thesis
    by (auto simp add: conserved_def distinct_update unit_total_update_old dict_get0_def)
next
  case (Report a1 a2 b1 b2 fees)
  then show ?thesis by (simp add: handlers_never_report)
qed

lemma conserved_closed: "conserved s \<Longrightarrow> conserved (closed_state s M)"
  by (simp add: conserved_def)

lemma conserved_run_command: "conserved s \<Longrightarrow> conserved (run_command s c)"
  by (cases c)
     (simp_all add: run_command_simps run_command_Calc conserved_upload conserved_delete
        conserved_update conserved_closed split: sum.splits)

lemma conserved_run_commands: "conserved s \<Longrightarrow> conserved (run_commands s cs)"
  by (induction cs arbitrary: s) (simp_all add: conserved_run_command)

subsection \<open>Growth of the monthly aggregates\<close>

lemma month_read_cong:
  "monthly_stats s' m = monthly_stats s m \<Longrightarrow> month_read s' m = month_read s m"
  by (simp add: month_read_def month_data_def fun_eq_iff)

lemma touched_read:
  "monthly_stats s M \<noteq> None \<Longrightarrow>
   month_read (touch_month (ensure_month_init s mk) mk us) M = month_read s M"
  by (simp add: month_read_ensure)

lemma alist_update_subset: "set (AList.update k v al) \<subseteq> insert (k, v) (set al)"
  by (induction al) auto

lemma month_read_ensure_Some:
  "monthly_stats s m = Some y \<Longrightarrow> month_read (ensure_month_init s mk) m = month_read s m"
  by (simp add: month_read_ensure)

lemma rejected_read:
  "s' = s \<or> (\<exists>us. s' = touch_month (ensure_month_init s mk) mk us) \<Longrightarrow>
   monthly_stats s M \<noteq> None \<Longrightarrow> month_read s' M = month_read s M"
  by (auto simp add: month_read_ensure_Some)

lemma files_nonneg_lookup:
  "files_nonneg s \<Longrightarrow> map_of (files s) f = Some file \<Longrightarrow> 0 \<le> size_kb file"
  by (force simp add: files_nonneg_def dest: map_of_SomeD)

lemma upload_monotone:
  assumes "monthly_stats s M \<noteq> None"
  shows "max_size (month_read s M x) \<le> max_size (month_read (snd (handle_upload s ts u f sz)) M x)"
    and "0 \<le> sz \<Longrightarrow>
         update_kb_sum (month_read s M x) \<le>
           update_kb_sum (month_read (snd (handle_upload s ts u f sz)) M x)"
proof -
  have "max_size (month_read s M x) \<le> max_size (month_read (snd (handle_upload s ts u f sz)) M x)
    \<and> (0 \<le> sz \<longrightarrow> update_kb_sum (month_read s M x) \<le>
           update_kb_sum (month_read (snd (handle_upload s ts u f sz)) M x))"
  proof (cases "fst (handle_upload s ts u f sz)")
    case (Rejected r)
    have "month_read (snd (handle_upload s ts u f sz)) M = month_read s M"
      using handle_upload_rejected[OF Rejected] assms by (intro rejected_read) auto
    then show ?thesis by simp
  next
    case (Accepted fees)
    show ?thesis
    proof (cases "M = get_month_key ts")
      case True
      with handle_upload_accepted(4)[OF Accepted] assms show ?thesis
        by (simp add: month_read_ensure)
    next
      case False
      then show ?thesis
        by (simp add: month_read_cong[OF handle_upload_other_month])
    qed
  next
    case (Report a1 a2 b1 b2 fees)
    then show ?thesis by (simp add: handlers_never_report)
  qed
  then show "max_size (month_read s M x) \<le> max_size (month_read (snd (handle_upload s ts u f sz)) M x)"
    and "0 \<le> sz \<Longrightarrow>
         update_kb_sum (month_read s M x) \<le>
           update_kb_sum (month_read (snd (handle_upload s ts u f sz)) M x)"
    by simp_all
qed

lemma delete_monotone:
  assumes "monthly_stats s M \<noteq> None"
  shows "max_size (month_read s M x) \<le> max_size (month_read (snd (handle_delete s ts u f)) M x)"
    and "files_nonneg s \<Longrightarrow>
         update_kb_sum (month_read s M x) \<le>
           update_kb_sum (month_read (snd (handle_delete s ts u f)) M x)"
proof -
  have "max_size (month_read s M x) \<le> max_size (month_read (snd (handle_delete s ts u f)) M x)
    \<and> (files_nonneg s \<longrightarrow> update_kb_sum (month_read s M x) \<le>
           update_kb_sum (month_read (snd (handle_delete s ts u f)) M x))"
  proof (cases "fst (handle_delete s ts u f)")
    case (Rejected r)
    have "month_read (snd (handle_delete s ts u f)) M = month_read s M"
      using handle_delete_rejected[OF Rejected] assms by (intro rejected_read) auto
    then show ?thesis by simp
  next
    case (Accepted fees)
    show ?thesis
    proof (cases "M = get_month_key ts")
      case True
      with handle_delete_accepted[OF Accepted] assms show ?thesis
        by (auto simp add: month_read_ensure dest: files_nonneg_lookup)
    next
      case False
      then show ?thesis
        by (simp add: month_read_cong[OF handle_delete_other_month])
    qed
  next
    case (Report a1 a2 b1 b2 fees)
    then show ?thesis by (simp add: handlers_never_report)
  qed
  then show "max_size (month_read s M x) \<le> max_size (month_read (snd (handle_delete s ts u f)) M x)"
    and "files_nonneg s \<Longrightarrow>
         update_kb_sum (month_read s M x) \<le>
           update_kb_sum (month_read (snd (handle_delete s ts u f)) M x)"
    by simp_all
qed

lemma update_monotone:
  assumes "monthly_stats s M \<noteq> None"
  shows "max_size (month_read s M x) \<le> max_size (month_read (snd (handle_update s ts u f sz)) M x)"
    and "files_nonneg s \<Longrightarrow> 0 \<le> sz \<Longrightarrow>
         update_kb_sum (month_read s M x) \<le>
           update_kb_sum (month_read (snd (handle_update s ts u f sz)) M x)"
proof -
  have "max_size (month_read s M x) \<le> max_size (month_read (snd (handle_update s ts u f sz)) M x)
    \<and> (files_nonneg s \<and> 0 \<le> sz \<longrightarrow> update_kb_sum (month_read s M x) \<le>
           update_kb_sum (month_read (snd (handle_update s ts u f sz)) M x))"
  proof (cases "fst (handle_update s ts u f sz)")
    case (Rejected r)
    have "month_read (snd (handle_update s ts u f sz)) M = month_read s M"
      using handle_update_rejected[OF Rejected] assms by (intro rejected_read) auto
    then show ?thesis by simp
  next
    case (Accepted fees)
    show ?thesis
    proof (cases "M = get_month_key ts")
      case True
      with handle_update_accepted[OF Accepted] assms show ?thesis
        by (auto simp add: month_read_ensure dest: files_nonneg_lookup)
    next
      case False
      then show ?thesis
        by (simp add: month_read_cong[OF handle_update_other_month])
    qed
  next
    case (Report a1 a2 b1 b2 fees)
    then show ?thesis by (simp add: handlers_never_report)
  qed
  then show "max_size (month_read s M x) \<le> max_size (month_read (snd (handle_update s ts u f sz)) M x)"
    and "files_nonneg s \<Longrightarrow> 0 \<le> sz \<Longrightarrow>
         update_kb_sum (month_read s M x) \<le>
           update_kb_sum (month_read (snd (handle_update s ts u f sz)) M x)"
    by simp_all
qed

lemma closed_read:
  "monthly_stats s M \<noteq> None \<Longrightarrow> month_read (closed_state s M') M = month_read s M"
  by (simp add: month_read_closed month_read_ensure)

lemma run_command_monotone:
  assumes "monthly_stats s M \<noteq> None"
  shows "max_size (month_read s M x) \<le> max_size (month_read (run_command s c) M x)"
    and "files_nonneg s \<Longrightarrow> nonneg_command c \<Longrightarrow>
         update_kb_sum (month_read s M x) \<le> update_kb_sum (month_read (run_command s c) M x)"
  using assms
  by (cases c; simp add: run_command_simps run_command_Calc upload_monotone delete_monotone
        update_monotone closed_read split: sum.splits)+

lemma files_nonneg_run_command:
  "files_nonneg s \<Longrightarrow> nonneg_command c \<Longrightarrow> files_nonneg (run_command s c)"
proof (cases c)
  case (Upload ts u f sz)
  assume a: "files_nonneg s" "nonneg_command c"
  show ?thesis
  proof (cases "fst (handle_upload s ts u f sz)")
    case (Rejected r)
    from handle_upload_rejected[OF Rejected] a Upload show ?thesis
      by (auto simp add: run_command_simps files_nonneg_def)
  next
    case (Accepted fees)
    from handle_upload_accepted(2)[OF Accepted] a Upload show ?thesis
      using alist_update_subset[where k = f and al = "files s"]
      by (fastforce simp add: run_command_simps files_nonneg_def)
  next
    case (Report a1 a2 b1 b2 fees)
    then show ?thesis by (simp add: handlers_never_report)
  qed
next
  case (Delete ts u f)
  assume a: "files_nonneg s" "nonneg_command c"
  show ?thesis
  proof (cases "fst (handle_delete s ts u f)")
    case (Rejected r)
    from handle_delete_rejected[OF Rejected] a Delete show ?thesis
      by (auto simp add: run_command_simps files_nonneg_def)
  next
    case (Accepted fees)
    from handle_delete_accepted[OF Accepted] a Delete show ?thesis
      by (auto simp add: run_command_simps files_nonneg_def AList.delete_eq)
  next
    case (Report a1 a2 b1 b2 fees)
    then show ?thesis by (simp add: handlers_never_report)
  qed
next
  case (Update ts u f sz)
  assume a: "files_nonneg s" "nonneg_command c"
  show ?thesis
  proof (cases "fst (handle_update s ts u f sz)")
    case (Rejected r)
    from handle_update_rejected[OF Rejected] a Update show ?thesis
      by (auto simp add: run_command_simps files_nonneg_def)
  next
    case (Accepted fees)
    from handle_update_accepted[OF Accepted] obtain old where
      fl: "files (snd (handle_update s ts u f sz)) =
             AList.update f (old\<lparr>size_kb := sz\<rparr>) (files s)" by blast
    from a Update show ?thesis
      using alist_update_subset[where k = f and v = "old\<lparr>size_kb := sz\<rparr>" and al = "files s"]
      by (fastforce simp add: run_command_simps files_nonneg_def fl)
  next
    case (Report a1 a2 b1 b2 fees)
    then show ?thesis by (simp add: handlers_never_report)
  qed
next
  case (Calc ts)
  assume "files_nonneg s"
  with Calc show ?thesis
    by (simp add: run_command_Calc files_nonneg_def split: sum.splits)
qed

subsection \<open>Settlement and repeated month close\<close>

lemma settled_sums_zero:
  "fee_update_sum True d xs = 0" "dec_update_sum True d xs = 0"
  by (induction xs) (auto simp add: fee_update_sum_def dec_update_sum_def int_fee_def dec_fee_def)

lemma month_fees_settled:
  "M \<in> update_fee_settled_for_month s \<Longrightarrow>
   month_fees s M =
     \<lparr>storage_fee = fee_storage_sum (month_data (ensure_month_init s M) M) (storages_to_check s),
      update_fee = 0,
      usage_fee = \<lceil>max 0 (dec_storage_sum (month_data (ensure_month_init s M) M)
                    (storages_to_check s) - 1000)\<rceil>\<rparr>"
  by (simp add: month_fees_def settled_sums_zero Let_def)

lemma traffic_ensure:
  "update_kb_sum (month_read (ensure_month_init s mk) m u) = update_kb_sum (month_read s m u)"
proof (cases "monthly_stats s m")
  case (Some y)
  then show ?thesis by (simp add: month_read_ensure_Some)
next
  case None
  show ?thesis
  proof (cases "m = mk")
    case True
    have "month_read s mk u = MonthlyStats_default"
      using None True by (simp add: month_read_def month_data_def stats_read_def)
    with None True show ?thesis
      by (simp add: month_read_seeded MonthlyStats_default_def)
  next
    case False
    then show ?thesis by (simp add: month_read_ensure_other)
  qed
qed

lemma handler_fees_settled:
  "get_month_key ts \<in> update_fee_settled_for_month s \<Longrightarrow>
   fst (handle_upload s ts u f sz) = Accepted fees \<Longrightarrow> update_fee fees = 0"
  "get_month_key ts \<in> update_fee_settled_for_month s \<Longrightarrow>
   fst (handle_delete s ts u f) = Accepted fees \<Longrightarrow> update_fee fees = 0"
  "get_month_key ts \<in> update_fee_settled_for_month s \<Longrightarrow>
   fst (handle_update s ts u f sz) = Accepted fees \<Longrightarrow> update_fee fees = 0"
  by (auto simp add: handler_defs month_fees_settled split: option.splits if_splits)

lemma exec_fees_settled:
  assumes "M \<in> update_fee_settled_for_month s"
    and "exec_command s c = (Inr rep, s')" and "command_month c = Inr M"
    and "reply_fees rep = Some f"
  shows "update_fee f = 0"
proof (cases c)
  case (Upload ts u fn sz)
  with assms have M: "M = get_month_key ts" and r: "fst (handle_upload s ts u fn sz) = rep"
    by (auto split: prod.splits)
  show ?thesis
  proof (cases rep)
    case (Rejected x)
    with assms show ?thesis by simp
  next
    case (Accepted g)
    with assms r M handler_fees_settled(1)[of ts s u fn sz g] show ?thesis by simp
  next
    case (Report a1 a2 b1 b2 g)
    with r show ?thesis by (simp add: handlers_never_report)
  qed
next
  case (Delete ts u fn)
  with assms have M: "M = get_month_key ts" and r: "fst (handle_delete s ts u fn) = rep"
    by (auto split: prod.splits)
  show ?thesis
  proof (cases rep)
    case (Rejected x)
    with assms show ?thesis by simp
  next
    case (Accepted g)
    with assms r M handler_fees_settled(2)[of ts s u fn g] show ?thesis by simp
  next
    case (Report a1 a2 b1 b2 g)
    with r show ?thesis by (simp add: handlers_never_report)
  qed
next
  case (Update ts u fn sz)
  with assms have M: "M = get_month_key ts" and r: "fst (handle_update s ts u fn sz) = rep"
    by (auto split: prod.splits)
  show ?thesis
  proof (cases rep)
    case (Rejected x)
    with assms show ?thesis by simp
  next
    case (Accepted g)
    with assms r M handler_fees_settled(3)[of ts s u fn sz g] show ?thesis by simp
  next
    case (Report a1 a2 b1 b2 g)
    with r show ?thesis by (simp add: handlers_never_report)
  qed
next
  case (Calc ts)
  with assms show ?thesis
    by (auto simp add: handle_calc_eq month_fees_settled)
qed

lemma month_fees_cong:
  assumes "monthly_stats s M \<noteq> None" and "monthly_stats s' M \<noteq> None"
    and "month_read s' M = month_read s M" and "is_free_plan s' = is_free_plan s"
    and "(M \<in> update_fee_settled_for_month s') = (M \<in> update_fee_settled_for_month s)"
  shows "month_fees s' M = month_fees s M"
proof -
  have rd: "stats_read (month_data s' M) = stats_read (month_data s M)"
    using assms(3) by (simp add: month_read_def fun_eq_iff)
  have xs: "storages_to_check s' = storages_to_check s"
    using assms(4) by (simp add: storages_to_check_def)
  show ?thesis
    using assms(1,2,5)
    by (simp add: month_fees_def Let_def ensure_idle xs fee_sums_read[OF rd])
qed

lemma run_command_reads:
  assumes "monthly_stats s M \<noteq> None" and "\<not> writes_month M c"
  shows "month_read (run_command s c) M = month_read s M"
proof (cases c)
  case (Upload ts u f sz)
  with assms show ?thesis
    by (simp add: run_command_simps month_read_cong[OF handle_upload_other_month])
next
  case (Delete ts u f)
  with assms show ?thesis
    by (simp add: run_command_simps month_read_cong[OF handle_delete_other_month])
next
  case (Update ts u f sz)
  with assms show ?thesis
    by (simp add: run_command_simps month_read_cong[OF handle_update_other_month])
next
  case (Calc ts)
  with assms show ?thesis
    by (simp add: run_command_Calc closed_read split: sum.splits)
qed

lemma run_commands_keeps_months:
  "monthly_stats s m \<noteq> None \<Longrightarrow> monthly_stats (run_commands s cs) m \<noteq> None"
proof (induction cs arbitrary: s)
  case Nil
  then show ?case by simp
next
  case (Cons c cs)
  from Cons.prems have "monthly_stats (run_command s c) m \<noteq> None"
    by (rule run_command_keeps_months)
  then show ?case using Cons.IH by simp
qed

lemma run_commands_reads:
  "monthly_stats s M \<noteq> None \<Longrightarrow> \<forall>c \<in> set cs. \<not> writes_month M c \<Longrightarrow>
   month_read (run_commands s cs) M = month_read s M"
proof (induction cs arbitrary: s)
  case Nil
  then show ?case by simp
next
  case (Cons c cs)
  from Cons.prems have p: "monthly_stats (run_command s c) M \<noteq> None"
    by (simp add: run_command_keeps_months)
  from Cons.prems have "month_read (run_command s c) M = month_read s M"
    by (simp add: run_command_reads)
  moreover from Cons.prems have "month_read (run_commands (run_command s c) cs) M =
      month_read (run_command s c) M"
    by (intro Cons.IH[OF p]) simp
  ultimately show ?case by simp
qed

lemma closed_state_month_present [simp]: "monthly_stats (closed_state s M) M \<noteq> None"
  by (simp add: monthly_stats_closed monthly_stats_touch)

lemma closed_state_snapshot_present [simp]:
  "calc_reported_sizes_snapshot (closed_state s M) M \<noteq> None"
  by (simp add: closed_state_def)

lemma reported_sizes_keep:
  "calc_reported_sizes_snapshot s M = Some snap \<Longrightarrow>
   reported_sizes_of (closed_state (run_commands s cs) M) M = snap"
  by (simp add: reported_sizes_of_def closed_state_snapshot_keeps run_commands_snapshot)

subsection \<open>Snapshot, seed table and settlement\<close>



lemma sim_total_settled:
  "sim_total (self\<lparr>update_fee_settled_for_month := S\<rparr>) mk n pot kb = sim_total self mk n pot kb"
  by (simp add: sim_total_def ensure_month_init_def month_data_def split: option.splits)

subsection \<open>The worked examples\<close>

lemma after_first_upload_eq:
  "after_first_upload =
    \<lparr>is_free_plan = True,
     files = [(''f1'', \<lparr>name = ''f1'', size_kb = 500, storage = ''storage_A1''\<rparr>)],
     current_storage_size = [''storage_A1'' \<mapsto> 500],
     monthly_stats = [''2024-01'' \<mapsto>
        [''storage_A2'' \<mapsto> \<lparr>max_size = 0, update_kb_sum = 0\<rparr>,
         ''storage_A1'' \<mapsto> \<lparr>max_size = 500, update_kb_sum = 500\<rparr>]],
     calc_reported_sizes_snapshot = Map.empty,
     update_fee_settled_for_month = {}, last_month_eom_storage_sizes = Map.empty\<rparr>"
  unfolding after_first_upload_def by (simp add: run_eval cong: let_weak_cong)

lemma after_first_close_eq:
  "after_first_close =
    \<lparr>is_free_plan = True,
     files = [(''f1'', \<lparr>name = ''f1'', size_kb = 500, storage = ''storage_A1''\<rparr>)],
     current_storage_size = [''storage_A1'' \<mapsto> 500],
     monthly_stats = [''2024-01'' \<mapsto>
        [''storage_A2'' \<mapsto> \<lparr>max_size = 0, update_kb_sum = 0\<rparr>,
         ''storage_A1'' \<mapsto> \<lparr>max_size = 500, update_kb_sum = 500\<rparr>]],
     calc_reported_sizes_snapshot = [''2024-01'' \<mapsto>
        [''storage_A1'' \<mapsto> 500, ''storage_A2'' \<mapsto> 0, ''storage_B1'' \<mapsto> 0,
         ''storage_B2'' \<mapsto> 0]],
     update_fee_settled_for_month = {''2024-01''},
     last_month_eom_storage_sizes =
        [''storage_A1'' \<mapsto> 500, ''storage_A2'' \<mapsto> 0, ''storage_B1'' \<mapsto> 0,
         ''storage_B2'' \<mapsto> 0]\<rparr>"
  unfolding after_first_close_def run_command_Calc after_first_upload_eq
  by (simp add: month_key_date_simps closed_state_def state_eval cong: let_weak_cong)

lemma first_close_reply:
  "handle_calc after_first_upload feb_01 =
     Inr (Report 500 0 0 0 \<lparr>storage_fee = 1, update_fee = 1, usage_fee = 0\<rparr>, after_first_close)"
proof -
  have c: "closed_state after_first_upload ''2024-01'' = after_first_close"
    by (simp add: after_first_close_def run_command_Calc month_key_date_simps)
  have f: "month_fees after_first_upload ''2024-01'' =
      \<lparr>storage_fee = 1, update_fee = 1, usage_fee = 0\<rparr>"
    unfolding after_first_upload_eq by (simp add: sums_eval state_eval arith_eval Let_def)
  show ?thesis
    by (simp add: handle_calc_eq[OF month_key_date_simps(6)] c f)
       (simp add: after_first_close_eq reported_sizes_of_def dict_get0_simps)
qed

lemma second_close_reply:
  "handle_calc after_first_close feb_01 =
     Inr (Report 500 0 0 0 \<lparr>storage_fee = 1, update_fee = 0, usage_fee = 0\<rparr>,
          closed_state after_first_close ''2024-01'')"
proof -
  have f: "month_fees after_first_close ''2024-01'' =
      \<lparr>storage_fee = 1, update_fee = 0, usage_fee = 0\<rparr>"
    unfolding after_first_close_eq by (simp add: sums_eval state_eval arith_eval Let_def)
  have r: "reported_sizes_of (closed_state after_first_close ''2024-01'') ''2024-01'' =
      [''storage_A1'' \<mapsto> 500, ''storage_A2'' \<mapsto> 0, ''storage_B1'' \<mapsto> 0,
       ''storage_B2'' \<mapsto> 0]"
    unfolding after_first_close_eq
    by (simp add: closed_state_def state_eval cong: let_weak_cong)
  show ?thesis
    by (simp add: handle_calc_eq[OF month_key_date_simps(6)] f r dict_get0_simps)
qed

lemma str_int_simps:
  "str_int 0 = ''0''" "str_int 1 = ''1''" "str_int 500 = ''500''"
  by (simp_all add: str_int_def str_nat_small str_nat_large)


lemma after_big_upload_eq:
  "after_big_upload =
    \<lparr>is_free_plan = True,
     files = [(''big'', \<lparr>name = ''big'', size_kb = 90000000, storage = ''storage_A2''\<rparr>)],
     current_storage_size = [''storage_A2'' \<mapsto> 90000000],
     monthly_stats = [''2024-01'' \<mapsto>
        [''storage_A1'' \<mapsto> \<lparr>max_size = 0, update_kb_sum = 0\<rparr>,
         ''storage_A2'' \<mapsto> \<lparr>max_size = 90000000, update_kb_sum = 90000000\<rparr>]],
     calc_reported_sizes_snapshot = Map.empty,
     update_fee_settled_for_month = {}, last_month_eom_storage_sizes = Map.empty\<rparr>"
  unfolding after_big_upload_def by (simp add: run_eval cong: let_weak_cong)

lemma after_big_close_eq:
  "after_big_close =
    \<lparr>is_free_plan = True,
     files = [(''big'', \<lparr>name = ''big'', size_kb = 90000000, storage = ''storage_A2''\<rparr>)],
     current_storage_size = [''storage_A2'' \<mapsto> 90000000],
     monthly_stats = [''2024-01'' \<mapsto>
        [''storage_A1'' \<mapsto> \<lparr>max_size = 0, update_kb_sum = 0\<rparr>,
         ''storage_A2'' \<mapsto> \<lparr>max_size = 90000000, update_kb_sum = 90000000\<rparr>]],
     calc_reported_sizes_snapshot = [''2024-01'' \<mapsto>
        [''storage_A1'' \<mapsto> 0, ''storage_A2'' \<mapsto> 90000000, ''storage_B1'' \<mapsto> 0,
         ''storage_B2'' \<mapsto> 0]],
     update_fee_settled_for_month = {''2024-01''},
     last_month_eom_storage_sizes =
        [''storage_A1'' \<mapsto> 0, ''storage_A2'' \<mapsto> 90000000, ''storage_B1'' \<mapsto> 0,
         ''storage_B2'' \<mapsto> 0]\<rparr>"
  unfolding after_big_close_def run_command_Calc after_big_upload_eq
  by (simp add: month_key_date_simps closed_state_def state_eval cong: let_weak_cong)

lemma settled_fees_of_big:
  "month_fees after_big_close ''2024-01'' = \<lparr>storage_fee = 90, update_fee = 0, usage_fee = 0\<rparr>"
  unfolding after_big_close_eq by (simp add: sums_eval state_eval arith_eval Let_def)

lemma late_upload_rejected:
  "fst (handle_upload after_big_close jan_06 ''storage_A2'' ''more'' 2000000) =
     Rejected FreePlanFeeLimitExceeded"
  unfolding after_big_close_eq by (simp add: run_eval cong: let_weak_cong)

lemma late_upload_sums:
  "sim_storage_sum ''storage_A2'' 92000000 (month_data after_big_close ''2024-01'')
     free_plan_units = 92"
  "sim_update_sum ''storage_A2'' 2000000 (month_data after_big_close ''2024-01'')
     free_plan_units = 920"
  unfolding after_big_close_eq by (simp_all add: sums_eval state_eval arith_eval)


section \<open>The free-plan limit check\<close>

text \<open>
  C4. The limit check answers true exactly when the manager is on the free plan and the
  simulated sum, over the units of the free plan, of the integer storage fees and the
  integer update fees is strictly greater than 1000. A sum of exactly 1000 is therefore
  let through, and a paid manager always gets false.
\<close>

theorem would_exceed_iff_sim_total:
  "fst (would_exceed_free_plan_limit self month_key n pot kb) =
     (is_free_plan self \<and> 1000 < sim_total self month_key n pot kb)"
  by (simp add: would_exceed_eq)

text \<open>
  At the boundary: on a fresh free-plan manager an upload of 95200000 KB to
  \<open>storage_A1\<close> simulates to exactly 1000 and is accepted; one more KB simulates to
  1001 and is rejected with the free-plan-limit rejection.
\<close>

theorem would_exceed_boundary:
  "sim_total (init_manager True) ''2024-01'' ''storage_A1'' 95200000 95200000 = 1000 \<and>
   \<not> fst (would_exceed_free_plan_limit (init_manager True) ''2024-01'' ''storage_A1''
           95200000 95200000) \<and>
   sim_total (init_manager True) ''2024-01'' ''storage_A1'' 95200001 95200001 = 1001 \<and>
   fst (would_exceed_free_plan_limit (init_manager True) ''2024-01'' ''storage_A1''
           95200001 95200001) \<and>
   \<not> fst (would_exceed_free_plan_limit (init_manager False) ''2024-01'' ''storage_A1''
           95200001 95200001)"
proof -
  have a: "sim_total (init_manager True) ''2024-01'' ''storage_A1'' 95200000 95200000 = 1000"
    by (simp add: state_eval sums_eval arith_eval)
  have b: "sim_total (init_manager True) ''2024-01'' ''storage_A1'' 95200001 95200001 = 1001"
    by (simp add: state_eval sums_eval arith_eval)
  have f: "is_free_plan (init_manager True)" "\<not> is_free_plan (init_manager False)"
    by (simp_all add: init_manager_def)
  show ?thesis
    using a b f
      would_exceed_iff_sim_total[of "init_manager True" "''2024-01''" "''storage_A1''"
        95200000 95200000]
      would_exceed_iff_sim_total[of "init_manager True" "''2024-01''" "''storage_A1''"
        95200001 95200001]
      would_exceed_iff_sim_total[of "init_manager False" "''2024-01''" "''storage_A1''"
        95200001 95200001]
    by simp
qed

theorem upload_boundary:
  "fst (handle_upload (init_manager True) jan_05 ''storage_A1'' ''f1'' 95200000) =
     Accepted \<lparr>storage_fee = 952, update_fee = 48, usage_fee = 0\<rparr> \<and>
   fst (handle_upload (init_manager True) jan_05 ''storage_A1'' ''f1'' 95200001) =
     Rejected FreePlanFeeLimitExceeded"
  by (simp add: run_eval cong: let_weak_cong)

section \<open>Rejected operations\<close>




section \<open>Sizes are not validated\<close>



section \<open>Conservation\<close>

text \<open>
  C7. Whatever commands a manager has been given since it was created, the occupancy of
  every unit equals the sum of the sizes of the files registered to that unit; so it
  does after every accepted upload, delete or update.
\<close>

theorem occupancy_conserved:
  "dict_get0 (current_storage_size (run_commands (init_manager free) cmds)) u =
     unit_total (files (run_commands (init_manager free) cmds)) u"
  using conserved_run_commands[OF conserved_init, of free cmds] by (simp add: conserved_def)

section \<open>Monotonicity of the monthly aggregates\<close>

text \<open>
  C8 (as the claim states it, refuted). The update traffic of a month can go down
  across accepted operations: after an upload of 500 KB the traffic of
  \<open>storage_A1\<close> is 500, and an upload of size -100 in the same month is accepted and
  leaves it at 400.
\<close>

theorem negative_upload_lowers_traffic:
  "fst (handle_upload after_first_upload jan_06 ''storage_A1'' ''f2'' (- 100)) =
     Accepted \<lparr>storage_fee = 1, update_fee = 1, usage_fee = 0\<rparr> \<and>
   update_kb_sum (month_read after_first_upload ''2024-01'' ''storage_A1'') = 500 \<and>
   update_kb_sum (month_read
      (snd (handle_upload after_first_upload jan_06 ''storage_A1'' ''f2'' (- 100)))
      ''2024-01'' ''storage_A1'') = 400"
  unfolding after_first_upload_eq by (simp add: run_eval cong: let_weak_cong)

text \<open>
  C8 (amended). Once a month's aggregates exist, no sequence of commands lowers the
  maximum size of any unit in that month; and none lowers the update traffic when every
  registered file has a non-negative size and no upload or update of the sequence
  carries a negative size.
\<close>

theorem aggregates_monotone:
  assumes "monthly_stats s M \<noteq> None"
  shows "max_size (month_read s M x) \<le> max_size (month_read (run_commands s cmds) M x) \<and>
         (files_nonneg s \<and> (\<forall>c \<in> set cmds. nonneg_command c) \<longrightarrow>
            update_kb_sum (month_read s M x) \<le>
              update_kb_sum (month_read (run_commands s cmds) M x))"
  using assms
proof (induction cmds arbitrary: s)
  case Nil
  show ?case by simp
next
  case (Cons c cmds)
  have p: "monthly_stats (run_command s c) M \<noteq> None"
    using Cons.prems by (rule run_command_keeps_months)
  note ih = Cons.IH[OF p]
  have m1: "max_size (month_read s M x) \<le> max_size (month_read (run_command s c) M x)"
    using Cons.prems by (rule run_command_monotone(1))
  show ?case
  proof (intro conjI impI)
    show "max_size (month_read s M x) \<le> max_size (month_read (run_commands s (c # cmds)) M x)"
      using m1 ih by simp
  next
    assume a: "files_nonneg s \<and> (\<forall>c\<in>set (c # cmds). nonneg_command c)"
    then have n: "files_nonneg (run_command s c)"
      by (simp add: files_nonneg_run_command)
    have "update_kb_sum (month_read s M x) \<le> update_kb_sum (month_read (run_command s c) M x)"
      using a run_command_monotone(2)[OF Cons.prems] by simp
    moreover have "update_kb_sum (month_read (run_command s c) M x) \<le>
        update_kb_sum (month_read (run_commands (run_command s c) cmds) M x)"
      using ih n a by simp
    ultimately show "update_kb_sum (month_read s M x) \<le>
        update_kb_sum (month_read (run_commands s (c # cmds)) M x)"
      by simp
  qed
qed

theorem aggregates_monotone_witness:
  "monthly_stats after_first_upload ''2024-01'' \<noteq> None \<and>
   files_nonneg after_first_upload \<and>
   nonneg_command (Upload jan_06 ''storage_A1'' ''f2'' 100) \<and>
   max_size (month_read after_first_upload ''2024-01'' ''storage_A1'') \<le>
     max_size (month_read
       (run_commands after_first_upload [Upload jan_06 ''storage_A1'' ''f2'' 100])
       ''2024-01'' ''storage_A1'') \<and>
   update_kb_sum (month_read after_first_upload ''2024-01'' ''storage_A1'') \<le>
     update_kb_sum (month_read
       (run_commands after_first_upload [Upload jan_06 ''storage_A1'' ''f2'' 100])
       ''2024-01'' ''storage_A1'')"
proof -
  have p: "monthly_stats after_first_upload ''2024-01'' \<noteq> None"
    unfolding after_first_upload_eq by simp
  have n: "files_nonneg after_first_upload"
    unfolding after_first_upload_eq by (simp add: files_nonneg_def)
  from aggregates_monotone[OF p, of "''storage_A1''" "[Upload jan_06 ''storage_A1'' ''f2'' 100]"]
    p n show ?thesis by simp
qed

section \<open>Month close\<close>

text \<open>
  C2 (as the claim states it, refuted). Two month closes of the same month do not
  return the same line: after an upload of 500 KB in January the first close of January
  returns \<^verbatim>\<open>CALC: [500 0 0 0] 1 1 0\<close> and the second, with nothing done in between,
  \<^verbatim>\<open>CALC: [500 0 0 0] 1 0 0\<close>, since the first one settles the update fee.
\<close>

theorem repeated_close_differs:
  "calc_line after_first_upload feb_01 = Inr ''CALC: [500 0 0 0] 1 1 0'' \<and>
   calc_line (run_command after_first_upload (Calc feb_01)) feb_01 =
     Inr ''CALC: [500 0 0 0] 1 0 0''"
  by (simp add: calc_line_def first_close_reply second_close_reply
      after_first_close_def[symmetric] fees_text_def str_int_simps)

text \<open>
  C2 (amended). After a first close of month \<open>M\<close>, every later close of \<open>M\<close> reports
  the four snapshot sizes of the first, whatever commands ran in between, and an update
  fee of 0; and two later closes report the same three fee figures when no upload,
  delete or update stamped in \<open>M\<close> ran between them.
\<close>

theorem repeated_close:
  assumes "handle_calc self ts1 = Inr (Report a1 a2 b1 b2 f1, s1)"
    and "get_previous_month_key ts1 = Inr M"
    and "get_previous_month_key ts2 = Inr M"
    and "get_previous_month_key ts3 = Inr M"
  shows "\<exists>f2 s2. handle_calc (run_commands s1 cmds) ts2 = Inr (Report a1 a2 b1 b2 f2, s2) \<and>
           update_fee f2 = 0 \<and>
           ((\<forall>c \<in> set cmds'. \<not> writes_month M c) \<longrightarrow>
            (\<exists>s3. handle_calc (run_commands s2 cmds') ts3 = Inr (Report a1 a2 b1 b2 f2, s3)))"
proof -
  let ?S = "run_commands s1 cmds"
  let ?s2 = "closed_state ?S M"
  let ?T = "run_commands ?s2 cmds'"
  from assms(1,2) have s1: "s1 = closed_state self M"
    and sizes: "a1 = dict_get0 (reported_sizes_of s1 M) ''storage_A1''"
      "a2 = dict_get0 (reported_sizes_of s1 M) ''storage_A2''"
      "b1 = dict_get0 (reported_sizes_of s1 M) ''storage_B1''"
      "b2 = dict_get0 (reported_sizes_of s1 M) ''storage_B2''"
    by (auto simp add: handle_calc_eq)
  obtain snap where snap: "calc_reported_sizes_snapshot s1 M = Some snap"
    by (cases "calc_reported_sizes_snapshot s1 M") (simp_all add: s1)
  then have r1: "reported_sizes_of s1 M = snap" by (simp add: reported_sizes_of_def)
  have r2: "reported_sizes_of ?s2 M = snap" using snap by (rule reported_sizes_keep)
  have snap2: "calc_reported_sizes_snapshot ?s2 M = Some snap"
    using snap by (simp add: closed_state_snapshot_keeps run_commands_snapshot)
  have r3: "reported_sizes_of (closed_state ?T M) M = snap" using snap2 by (rule reported_sizes_keep)
  have st: "M \<in> update_fee_settled_for_month ?S"
    using s1 by (simp add: run_commands_settled)
  have pS: "monthly_stats ?S M \<noteq> None"
    using s1 by (simp add: run_commands_keeps_months)
  have c2: "handle_calc ?S ts2 = Inr (Report a1 a2 b1 b2 (month_fees ?S M), ?s2)"
    by (simp add: handle_calc_eq[OF assms(3)] sizes r1 r2)
  have u0: "update_fee (month_fees ?S M) = 0"
    by (simp add: month_fees_settled[OF st])
  have c3: "(\<forall>c \<in> set cmds'. \<not> writes_month M c) \<longrightarrow>
      handle_calc ?T ts3 = Inr (Report a1 a2 b1 b2 (month_fees ?S M), closed_state ?T M)"
  proof
    assume nw: "\<forall>c \<in> set cmds'. \<not> writes_month M c"
    have p2: "monthly_stats ?s2 M \<noteq> None" by simp
    have pT: "monthly_stats ?T M \<noteq> None" using p2 by (rule run_commands_keeps_months)
    have "month_read ?T M = month_read ?s2 M" using p2 nw by (rule run_commands_reads)
    also have "\<dots> = month_read ?S M" using pS by (rule closed_read)
    finally have rd: "month_read ?T M = month_read ?S M" .
    have stT: "M \<in> update_fee_settled_for_month ?T"
      by (simp add: run_commands_settled)
    have "month_fees ?T M = month_fees ?S M"
      using pS pT rd st stT by (intro month_fees_cong) simp_all
    then show "handle_calc ?T ts3 =
        Inr (Report a1 a2 b1 b2 (month_fees ?S M), closed_state ?T M)"
      by (simp add: handle_calc_eq[OF assms(4)] sizes r1 r3)
  qed
  from c2 u0 c3 show ?thesis by blast
qed

theorem repeated_close_witness:
  "handle_calc after_first_upload feb_01 =
     Inr (Report 500 0 0 0 \<lparr>storage_fee = 1, update_fee = 1, usage_fee = 0\<rparr>,
          after_first_close) \<and>
   get_previous_month_key feb_01 = Inr ''2024-01'' \<and>
   get_previous_month_key feb_05 = Inr ''2024-01'' \<and>
   \<not> writes_month ''2024-01'' (Upload feb_01 ''storage_A2'' ''f2'' 100) \<and>
   (\<exists>f2 s2. handle_calc (run_commands after_first_close
                [Upload jan_06 ''storage_A1'' ''f3'' 700]) feb_01 =
              Inr (Report 500 0 0 0 f2, s2) \<and> update_fee f2 = 0 \<and>
      (\<exists>s3. handle_calc (run_commands s2 [Upload feb_01 ''storage_A2'' ''f2'' 100]) feb_05 =
              Inr (Report 500 0 0 0 f2, s3)))"
proof -
  have w: "\<forall>c \<in> set [Upload feb_01 ''storage_A2'' ''f2'' 100]. \<not> writes_month ''2024-01'' c"
    by (simp add: month_key_date_simps)
  from repeated_close[OF first_close_reply month_key_date_simps(6) month_key_date_simps(6)
      month_key_date_simps(7), of "[Upload jan_06 ''storage_A1'' ''f3'' 700]"
      "[Upload feb_01 ''storage_A2'' ''f2'' 100]"] w
  show ?thesis
    by (simp only: first_close_reply month_key_date_simps simp_thms)
       (auto simp add: month_key_date_simps)
qed

text \<open>
  C5. Once a close has settled month \<open>M\<close>, then after any further commands the fees
  of \<open>M\<close> have update fee 0 and a usage fee made of the storage fees alone, and every
  reply of a command working on \<open>M\<close> carries update fee 0; neither the close nor the
  fee computation changes the update traffic stored for \<open>M\<close>.
\<close>

theorem settled_month_has_no_update_fee:
  assumes "handle_calc self ts = Inr (r, self')" and "get_previous_month_key ts = Inr M"
  shows "update_fee (fst (calculate_total_fees (run_commands self' cmds) M)) = 0 \<and>
         usage_fee (fst (calculate_total_fees (run_commands self' cmds) M)) =
           \<lceil>max 0 (dec_storage_sum
                    (month_data (ensure_month_init (run_commands self' cmds) M) M)
                    (storages_to_check (run_commands self' cmds)) - 1000)\<rceil> \<and>
         (\<forall>c rep s' f. exec_command (run_commands self' cmds) c = (Inr rep, s') \<and>
              command_month c = Inr M \<and> reply_fees rep = Some f \<longrightarrow> update_fee f = 0) \<and>
         (\<forall>u. update_kb_sum (month_read self' M u) = update_kb_sum (month_read self M u)) \<and>
         (\<forall>u. update_kb_sum (month_read
                  (snd (calculate_total_fees (run_commands self' cmds) M)) M u) =
               update_kb_sum (month_read (run_commands self' cmds) M u))"
proof -
  from assms have s': "self' = closed_state self M"
    by (simp add: handle_calc_eq)
  then have "M \<in> update_fee_settled_for_month self'" by simp
  then have st: "M \<in> update_fee_settled_for_month (run_commands self' cmds)"
    by (rule run_commands_settled)
  have a: "update_fee (fst (calculate_total_fees (run_commands self' cmds) M)) = 0"
    by (simp add: calculate_total_fees_eq month_fees_settled[OF st])
  have b: "usage_fee (fst (calculate_total_fees (run_commands self' cmds) M)) =
           \<lceil>max 0 (dec_storage_sum
                    (month_data (ensure_month_init (run_commands self' cmds) M) M)
                    (storages_to_check (run_commands self' cmds)) - 1000)\<rceil>"
    by (simp add: calculate_total_fees_eq month_fees_settled[OF st])
  have c: "\<forall>c rep s' f. exec_command (run_commands self' cmds) c = (Inr rep, s') \<and>
              command_month c = Inr M \<and> reply_fees rep = Some f \<longrightarrow> update_fee f = 0"
    using exec_fees_settled[OF st] by blast
  have d: "\<forall>u. update_kb_sum (month_read self' M u) = update_kb_sum (month_read self M u)"
    by (simp add: s' month_read_closed traffic_ensure)
  have e: "\<forall>u. update_kb_sum (month_read
                  (snd (calculate_total_fees (run_commands self' cmds) M)) M u) =
               update_kb_sum (month_read (run_commands self' cmds) M u)"
    by (simp add: calculate_total_fees_eq traffic_ensure)
  from a b c d e show ?thesis by blast
qed

theorem settled_month_has_no_update_fee_witness:
  "handle_calc after_first_upload feb_01 =
     Inr (Report 500 0 0 0 \<lparr>storage_fee = 1, update_fee = 1, usage_fee = 0\<rparr>,
          after_first_close) \<and>
   get_previous_month_key feb_01 = Inr ''2024-01'' \<and>
   update_fee (fst (calculate_total_fees after_first_close ''2024-01'')) = 0 \<and>
   update_kb_sum (month_read after_first_upload ''2024-01'' ''storage_A1'') = 500 \<and>
   update_kb_sum (month_read after_first_close ''2024-01'' ''storage_A1'') = 500"
proof -
  have t: "update_kb_sum (month_read after_first_upload ''2024-01'' ''storage_A1'') = 500"
    unfolding after_first_upload_eq by (simp add: state_eval)
  from settled_month_has_no_update_fee[OF first_close_reply month_key_date_simps(6), of "[]"] t
  show ?thesis
    by (simp add: first_close_reply month_key_date_simps)
qed




section \<open>The limit check and settlement\<close>

text \<open>
  C9. The limit check does not depend on the set of settled months. With January
  settled and its stored traffic of 90000000 KB reported as update fee 0, an upload of
  2000000 KB stamped in January simulates a storage fee of 92 and an update fee of 920
  on the full traffic, and is rejected with the free-plan-limit rejection.
\<close>

theorem limit_ignores_settlement:
  "fst (would_exceed_free_plan_limit (self\<lparr>update_fee_settled_for_month := S\<rparr>) mk n pot kb) =
     fst (would_exceed_free_plan_limit self mk n pot kb) \<and>
   ''2024-01'' \<in> update_fee_settled_for_month after_big_close \<and>
   update_kb_sum (month_read after_big_close ''2024-01'' ''storage_A2'') = 90000000 \<and>
   fst (calculate_total_fees after_big_close ''2024-01'') =
     \<lparr>storage_fee = 90, update_fee = 0, usage_fee = 0\<rparr> \<and>
   get_month_key jan_06 = ''2024-01'' \<and>
   sim_storage_sum ''storage_A2'' 92000000 (month_data after_big_close ''2024-01'')
     free_plan_units = 92 \<and>
   sim_update_sum ''storage_A2'' 2000000 (month_data after_big_close ''2024-01'')
     free_plan_units = 920 \<and>
   fst (handle_upload after_big_close jan_06 ''storage_A2'' ''more'' 2000000) =
     Rejected FreePlanFeeLimitExceeded"
proof -
  have a: "fst (would_exceed_free_plan_limit (self\<lparr>update_fee_settled_for_month := S\<rparr>)
        mk n pot kb) = fst (would_exceed_free_plan_limit self mk n pot kb)"
    by (simp add: would_exceed_eq sim_total_settled)
  have b: "''2024-01'' \<in> update_fee_settled_for_month after_big_close"
    "update_kb_sum (month_read after_big_close ''2024-01'' ''storage_A2'') = 90000000"
    unfolding after_big_close_eq by (simp_all add: state_eval)
  from a b show ?thesis
    by (simp add: calculate_total_fees_eq settled_fees_of_big late_upload_rejected
        late_upload_sums month_key_date_simps)
qed

section \<open>Rounding\<close>




end
